theory Spec2Isabelle
  imports Main
begin

section \<open>Errors\<close>

text \<open>
  Go's \<^verbatim>\<open>error\<close> interface is modelled as \<open>err option\<close>: \<open>None\<close> is \<^verbatim>\<open>nil\<close>.
  The constructors are the sentinel errors the sources declare or compare against
  (\<^verbatim>\<open>store.ErrNotFound\<close>, \<^verbatim>\<open>mgo.ErrNotFound\<close>, \<^verbatim>\<open>ErrAuthNotFound\<close>,
  \<^verbatim>\<open>ErrNotPreauthorized\<close>, \<^verbatim>\<open>AuthSetConflictError\<close>), the two error types the
  sources test for (\<^verbatim>\<open>utils.UsageError\<close>, \<^verbatim>\<open>rest_utils.ApiError\<close>), an error made by
  \<^verbatim>\<open>errors.New\<close>/\<^verbatim>\<open>errors.Errorf\<close> or raised by a library, and \<^verbatim>\<open>errors.Wrap\<close>
  of a non-nil error.
\<close>

datatype err =
    store_ErrNotFound
  | mgo_ErrNotFound
  | ErrAuthNotFound
  | ErrNotPreauthorized
  | AuthSetConflictError
  | UsageError string
  | ApiError string string
  | errors_New string
  | Wrapped err string

text \<open>\<^verbatim>\<open>errors.Wrap(err, msg)\<close> returns nil when \<^verbatim>\<open>err\<close> is nil.\<close>

definition errors_Wrap :: "err option \<Rightarrow> string \<Rightarrow> err option" where
  "errors_Wrap e msg = (case e of None \<Rightarrow> None | Some x \<Rightarrow> Some (Wrapped x msg))"

text \<open>\<^verbatim>\<open>utils.IsUsageError\<close> and \<^verbatim>\<open>rest_utils.IsApiError\<close> are type tests.\<close>

fun IsUsageError :: "err \<Rightarrow> bool" where
  "IsUsageError (UsageError m) = True"
| "IsUsageError e = False"

fun IsApiError :: "err \<Rightarrow> bool" where
  "IsApiError (ApiError m r) = True"
| "IsApiError e = False"

section \<open>The auth set record (package model)\<close>

text \<open>
  \<^verbatim>\<open>model.DeviceAuth\<close>, with the fields the sources read and write. Identifiers and
  the status are Go strings, \<^verbatim>\<open>Attributes\<close> is a string-to-string mapping whose
  length the code tests, \<^verbatim>\<open>RequestTime\<close> is a \<^verbatim>\<open>*time.Time\<close> (\<open>None\<close> is nil;
  an instant is a natural number).
\<close>

record DeviceAuth =
  ID :: string
  DeviceId :: string
  DeviceIdentity :: string
  Key :: string
  Status :: string
  Attributes :: "(string \<times> string) list"
  RequestTime :: "nat option"

text \<open>The zero value \<^verbatim>\<open>model.DeviceAuth{}\<close>.\<close>

definition DeviceAuth_zero :: DeviceAuth where
  "DeviceAuth_zero =
     \<lparr>ID = [], DeviceId = [], DeviceIdentity = [], Key = [], Status = [],
      Attributes = [], RequestTime = None\<rparr>"

text \<open>\<^verbatim>\<open>model.AuthSet\<close>: the body of a pre-authorization request.\<close>

record AuthSet =
  as_DeviceId :: string
  as_Key :: string
  as_Attributes :: "(string \<times> string) list"

text \<open>
  Modelled from the spec: the status constants of package model, which is not among
  the sources (section 3: status is one of pending, preauthorized, accepted, rejected).
\<close>

definition DevStatusAccepted :: string where
  "DevStatusAccepted = ''accepted''"

definition DevStatusRejected :: string where
  "DevStatusRejected = ''rejected''"

definition DevStatusPending :: string where
  "DevStatusPending = ''pending''"

definition DevStatusPreauthorized :: string where
  "DevStatusPreauthorized = ''preauthorized''"

section \<open>The mongo data store\<close>

subsection \<open>Documents, selectors and the collection\<close>

type_synonym collection = "DeviceAuth list"

text \<open>
  \<^verbatim>\<open>genDeviceAuthUpdate\<close>: copies every non-empty field but \<^verbatim>\<open>ID\<close> into a fresh
  record.
\<close>

definition genDeviceAuthUpdate :: "DeviceAuth \<Rightarrow> DeviceAuth" where
  "genDeviceAuthUpdate dev =
     (let updev = DeviceAuth_zero;
          updev = (if DeviceId dev \<noteq> [] then updev\<lparr>DeviceId := DeviceId dev\<rparr> else updev);
          updev = (if Status dev \<noteq> [] then updev\<lparr>Status := Status dev\<rparr> else updev);
          updev = (if Key dev \<noteq> [] then updev\<lparr>Key := Key dev\<rparr> else updev);
          updev = (if DeviceIdentity dev \<noteq> []
                   then updev\<lparr>DeviceIdentity := DeviceIdentity dev\<rparr> else updev);
          updev = (if length (Attributes dev) \<noteq> 0
                   then updev\<lparr>Attributes := Attributes dev\<rparr> else updev);
          updev = (if RequestTime dev \<noteq> None
                   then updev\<lparr>RequestTime := RequestTime dev\<rparr> else updev)
      in updev)"

text \<open>
  Modelled from the spec: the bson encoding of \<^verbatim>\<open>model.DeviceAuth\<close>, whose struct
  tags are declared in package model (not among the sources). Section 3 requires that
  an update supplying an empty value for a field leaves the stored value of that field
  unchanged, so an empty field is left out of the encoded document: \<open>bson_set u d\<close> is
  the document \<open>d\<close> after \<^verbatim>\<open>{"$set": u}\<close>, and \<open>bson_match f d\<close> says that \<open>d\<close> is
  selected by the struct \<open>f\<close> used as a query (an empty field of \<open>f\<close> constrains
  nothing, as in \<^verbatim>\<open>GetDeviceAuths\<close>).
\<close>

definition bson_set :: "DeviceAuth \<Rightarrow> DeviceAuth \<Rightarrow> DeviceAuth" where
  "bson_set u d =
     \<lparr>ID = (if ID u = [] then ID d else ID u),
      DeviceId = (if DeviceId u = [] then DeviceId d else DeviceId u),
      DeviceIdentity = (if DeviceIdentity u = [] then DeviceIdentity d else DeviceIdentity u),
      Key = (if Key u = [] then Key d else Key u),
      Status = (if Status u = [] then Status d else Status u),
      Attributes = (if Attributes u = [] then Attributes d else Attributes u),
      RequestTime = (if RequestTime u = None then RequestTime d else RequestTime u)\<rparr>"

definition bson_match :: "DeviceAuth \<Rightarrow> DeviceAuth \<Rightarrow> bool" where
  "bson_match f d =
     ((ID f = [] \<or> ID d = ID f) \<and>
      (DeviceId f = [] \<or> DeviceId d = DeviceId f) \<and>
      (DeviceIdentity f = [] \<or> DeviceIdentity d = DeviceIdentity f) \<and>
      (Key f = [] \<or> Key d = Key f) \<and>
      (Status f = [] \<or> Status d = Status f) \<and>
      (Attributes f = [] \<or> Attributes d = Attributes f) \<and>
      (RequestTime f = None \<or> RequestTime d = RequestTime f))"

text \<open>The selector \<^verbatim>\<open>bson.M{"id": id}\<close>.\<close>

definition id_is :: "string \<Rightarrow> DeviceAuth \<Rightarrow> bool" where
  "id_is i d = (ID d = i)"

subsection \<open>The operations of the mgo driver on a collection\<close>

text \<open>
  The driver is a library outside the repository. Each operation is modelled by its
  documented effect on the collection (a list of documents in storage order), and takes
  the failure the database reports for it, if any (\<open>fault\<close>): a failed operation
  leaves the collection as it was. \<^verbatim>\<open>Update\<close>, \<^verbatim>\<open>Upsert\<close> and \<^verbatim>\<open>Remove\<close> act on the
  first selected document.
\<close>

fun update_first :: "('a \<Rightarrow> bool) \<Rightarrow> ('a \<Rightarrow> 'a) \<Rightarrow> 'a list \<Rightarrow> 'a list" where
  "update_first p f [] = []"
| "update_first p f (d # ds) = (if p d then f d # ds else d # update_first p f ds)"

fun remove_first :: "('a \<Rightarrow> bool) \<Rightarrow> 'a list \<Rightarrow> 'a list" where
  "remove_first p [] = []"
| "remove_first p (d # ds) = (if p d then ds else d # remove_first p ds)"

definition mgo_One :: "err option \<Rightarrow> (DeviceAuth \<Rightarrow> bool) \<Rightarrow> collection \<Rightarrow> err + DeviceAuth" where
  "mgo_One fault sel c =
     (case fault of
        Some e \<Rightarrow> Inl e
      | None \<Rightarrow> (case find sel c of None \<Rightarrow> Inl mgo_ErrNotFound | Some d \<Rightarrow> Inr d))"

definition mgo_All :: "err option \<Rightarrow> (DeviceAuth \<Rightarrow> bool) \<Rightarrow> collection \<Rightarrow> DeviceAuth list \<times> err option" where
  "mgo_All fault sel c =
     (case fault of Some e \<Rightarrow> ([], Some e) | None \<Rightarrow> (filter sel c, None))"

definition mgo_Upsert :: "err option \<Rightarrow> string \<Rightarrow> DeviceAuth \<Rightarrow> collection \<Rightarrow> err option \<times> collection" where
  "mgo_Upsert fault i u c =
     (case fault of
        Some e \<Rightarrow> (Some e, c)
      | None \<Rightarrow>
          (case find (id_is i) c of
             Some d \<Rightarrow> (None, update_first (id_is i) (bson_set u) c)
           | None \<Rightarrow> (None, c @ [bson_set u (DeviceAuth_zero\<lparr>ID := i\<rparr>)])))"

definition mgo_Update :: "err option \<Rightarrow> string \<Rightarrow> DeviceAuth \<Rightarrow> collection \<Rightarrow> err option \<times> collection" where
  "mgo_Update fault i u c =
     (case fault of
        Some e \<Rightarrow> (Some e, c)
      | None \<Rightarrow>
          (case find (id_is i) c of
             Some d \<Rightarrow> (None, update_first (id_is i) (bson_set u) c)
           | None \<Rightarrow> (Some mgo_ErrNotFound, c)))"

text \<open>
  \<^verbatim>\<open>Insert\<close>: the collection has a unique index on \<^verbatim>\<open>id\<close> (\<^verbatim>\<open>EnsureIndexes\<close>), so the
  database refuses a document whose \<^verbatim>\<open>id\<close> is already stored.
\<close>

definition mgo_Insert :: "err option \<Rightarrow> DeviceAuth \<Rightarrow> collection \<Rightarrow> err option \<times> collection" where
  "mgo_Insert fault d c =
     (case fault of
        Some e \<Rightarrow> (Some e, c)
      | None \<Rightarrow>
          (case find (id_is (ID d)) c of
             Some x \<Rightarrow> (Some (errors_New ''E11000 duplicate key error''), c)
           | None \<Rightarrow> (None, c @ [d])))"

definition mgo_Remove :: "err option \<Rightarrow> string \<Rightarrow> collection \<Rightarrow> err option \<times> collection" where
  "mgo_Remove fault i c =
     (case fault of
        Some e \<Rightarrow> (Some e, c)
      | None \<Rightarrow>
          (case find (id_is i) c of
             Some d \<Rightarrow> (None, remove_first (id_is i) c)
           | None \<Rightarrow> (Some mgo_ErrNotFound, c)))"

text \<open>
  \<^verbatim>\<open>RemoveAll\<close> returns \<^verbatim>\<open>(*ChangeInfo, error)\<close>; the only field of the change info
  the sources read is \<^verbatim>\<open>Removed\<close>. The session acknowledges writes
  (\<^verbatim>\<open>SetSafe\<close> in \<^verbatim>\<open>NewDataStoreMongo\<close>), so a successful removal carries its info.
\<close>

record ChangeInfo =
  Removed :: nat

definition mgo_RemoveAll ::
  "err option \<Rightarrow> (DeviceAuth \<Rightarrow> bool) \<Rightarrow> collection \<Rightarrow> (ChangeInfo option \<times> err option) \<times> collection" where
  "mgo_RemoveAll fault sel c =
     (case fault of
        Some e \<Rightarrow> ((None, Some e), c)
      | None \<Rightarrow> ((Some \<lparr>Removed = length (filter sel c)\<rparr>, None), filter (\<lambda>d. \<not> sel d) c))"

subsection \<open>The environment of one call, and the state it acts on\<close>

text \<open>
  The remote authenticator's request types (\<^verbatim>\<open>deviceauth.StatusReq\<close>,
  \<^verbatim>\<open>deviceauth.PreAuthReq\<close>) and its configuration.
\<close>

record StatusReq =
  sr_DeviceId :: string
  sr_AuthId :: string
  sr_Status :: string

record PreAuthReq =
  pa_DeviceId :: string
  pa_AuthSetId :: string
  pa_IdData :: string
  pa_PubKey :: string

record Config =
  DevauthUrl :: string
  Timeout :: int

text \<open>
  An outbound HTTP request and the response to it. The body of a request is the JSON
  object \<^verbatim>\<open>json.Marshal\<close> makes of the request struct, kept as its fields:
  \<^verbatim>\<open>{status}\<close> for a status request (its identifiers are tagged \<^verbatim>\<open>json:"-"\<close>),
  \<^verbatim>\<open>{device_id, auth_set_id, id_data, pubkey}\<close> for a pre-authorization.
  Marshalling a struct of strings cannot fail.
\<close>

datatype payload =
    StatusReqJson string
  | PreAuthReqJson string string string string

record Request =
  Method :: string
  URL :: string
  Header :: "(string \<times> string) list"
  Body :: payload
  ctx_Timeout :: int

record Response =
  StatusCode :: int
  rsp_Status :: string
  rsp_Body :: string

text \<open>
  What one call of the service meets outside the program: the failure the database
  reports for each driver operation (if any), the two object ids the driver generates,
  the configuration of the remote client, whether \<^verbatim>\<open>http.NewRequest\<close> accepts a URL,
  the transport (\<^verbatim>\<open>client.HttpRunner.Do\<close>: a transport error or a response), the
  library function \<^verbatim>\<open>rest_utils.ParseApiError\<close> (which always returns an error value:
  an \<open>ApiError\<close> when the body decodes, the decoder's wrapped error otherwise), and the
  two clocks (\<^verbatim>\<open>time.Now\<close>, and the injected \<^verbatim>\<open>clock.Clock\<close>).
\<close>

record env =
  EnsureIndex_fault :: "err option"
  Find_fault :: "err option"
  Upsert_fault :: "err option"
  Update_fault :: "err option"
  Insert_fault :: "err option"
  Remove_fault :: "err option"
  RemoveAll_fault :: "err option"
  NewObjectId :: "string \<times> string"
  authclientconf :: Config
  NewRequest_fault :: "string \<Rightarrow> err option"
  client_Do :: "Request \<Rightarrow> err + Response"
  ParseApiError :: "string \<Rightarrow> err"
  time_Now :: nat
  clock_Now :: nat

text \<open>
  The state: the devices collection, and the two logs a test double would keep, of the
  mutating calls made on the \<^verbatim>\<open>DataStore\<close> interface and of the calls made on the
  remote-authenticator client.
\<close>

datatype store_call =
    CallPutDeviceAuth DeviceAuth
  | CallUpdateDeviceAuth DeviceAuth
  | CallInsertDeviceAuth DeviceAuth
  | CallDeleteDeviceAuth string
  | CallDeleteDeviceAuthByDevice string

datatype remote_call =
    CallUpdateDevice StatusReq
  | CallPreauthorizeDevice PreAuthReq string

record world =
  coll :: collection
  store_writes :: "store_call list"
  remote_calls :: "remote_call list"

subsection \<open>The DataStore operations of DataStoreMongo\<close>

definition GetDeviceAuth :: "env \<Rightarrow> string \<Rightarrow> world \<Rightarrow> err + DeviceAuth" where
  "GetDeviceAuth E i w =
     (case mgo_One (Find_fault E) (id_is i) (coll w) of
        Inl e \<Rightarrow>
          (if e = mgo_ErrNotFound then Inl store_ErrNotFound
           else Inl (Wrapped e ''failed to fetch device''))
      | Inr res \<Rightarrow> Inr res)"

definition GetDeviceAuthsByIdentityData :: "env \<Rightarrow> string \<Rightarrow> world \<Rightarrow> DeviceAuth list \<times> err option" where
  "GetDeviceAuthsByIdentityData E idata w =
     (let flt = DeviceAuth_zero\<lparr>DeviceIdentity := idata\<rparr> in
      case mgo_All (Find_fault E) (bson_match flt) (coll w) of
        (res, e) \<Rightarrow> (res, errors_Wrap e ''failed to fetch device''))"

definition DeleteDeviceAuth :: "env \<Rightarrow> string \<Rightarrow> world \<Rightarrow> err option \<times> world" where
  "DeleteDeviceAuth E i w =
     (let w1 = w\<lparr>store_writes := store_writes w @ [CallDeleteDeviceAuth i]\<rparr> in
      case mgo_Remove (Remove_fault E) i (coll w1) of
        (None, c) \<Rightarrow> (None, w1\<lparr>coll := c\<rparr>)
      | (Some e, c) \<Rightarrow>
          (if e = mgo_ErrNotFound then (Some store_ErrNotFound, w1\<lparr>coll := c\<rparr>)
           else (Some (Wrapped e ''failed to delete device''), w1\<lparr>coll := c\<rparr>)))"

text \<open>
  The \<^verbatim>\<open>switch\<close> that ends \<^verbatim>\<open>DeleteDeviceAuthByDevice\<close>, on the pair
  \<^verbatim>\<open>(ci, err)\<close> that \<^verbatim>\<open>RemoveAll\<close> returned; its cases are tried in order.
\<close>

definition DeleteDeviceAuthByDevice_switch :: "ChangeInfo option \<Rightarrow> err option \<Rightarrow> err option" where
  "DeleteDeviceAuthByDevice_switch ci e =
     (if e \<noteq> None then None
      else if (case ci of None \<Rightarrow> False | Some info \<Rightarrow> Removed info = 0)
      then Some store_ErrNotFound
      else errors_Wrap e ''failed to delete device'')"

definition DeleteDeviceAuthByDevice :: "env \<Rightarrow> string \<Rightarrow> world \<Rightarrow> err option \<times> world" where
  "DeleteDeviceAuthByDevice E i w =
     (let w1 = w\<lparr>store_writes := store_writes w @ [CallDeleteDeviceAuthByDevice i]\<rparr>;
          flt = DeviceAuth_zero\<lparr>DeviceId := i\<rparr> in
      case mgo_RemoveAll (RemoveAll_fault E) (bson_match flt) (coll w1) of
        ((ci, e), c) \<Rightarrow> (DeleteDeviceAuthByDevice_switch ci e, w1\<lparr>coll := c\<rparr>))"

definition PutDeviceAuth :: "env \<Rightarrow> DeviceAuth \<Rightarrow> world \<Rightarrow> err option \<times> world" where
  "PutDeviceAuth E dev w =
     (let w1 = w\<lparr>store_writes := store_writes w @ [CallPutDeviceAuth dev]\<rparr> in
      case EnsureIndex_fault E of
        Some e \<Rightarrow> (Some e, w1)
      | None \<Rightarrow>
          (case mgo_Upsert (Upsert_fault E) (ID dev) (genDeviceAuthUpdate dev) (coll w1) of
             (Some e, c) \<Rightarrow> (Some (Wrapped e ''failed to store device''), w1\<lparr>coll := c\<rparr>)
           | (None, c) \<Rightarrow> (None, w1\<lparr>coll := c\<rparr>)))"

definition UpdateDeviceAuth :: "env \<Rightarrow> DeviceAuth \<Rightarrow> world \<Rightarrow> err option \<times> world" where
  "UpdateDeviceAuth E dev w =
     (let w1 = w\<lparr>store_writes := store_writes w @ [CallUpdateDeviceAuth dev]\<rparr> in
      case EnsureIndex_fault E of
        Some e \<Rightarrow> (Some e, w1)
      | None \<Rightarrow>
          (case mgo_Update (Update_fault E) (ID dev) (genDeviceAuthUpdate dev) (coll w1) of
             (None, c) \<Rightarrow> (None, w1\<lparr>coll := c\<rparr>)
           | (Some e, c) \<Rightarrow>
               (if e = mgo_ErrNotFound then (Some store_ErrNotFound, w1\<lparr>coll := c\<rparr>)
                else (Some (Wrapped e ''failed to update auth set''), w1\<lparr>coll := c\<rparr>))))"

text \<open>
  \<^verbatim>\<open>InsertDeviceAuth\<close> assigns both identifiers through the pointer it is given before
  anything else, so the caller sees them whatever the outcome: the record is returned
  with the error.
\<close>

definition InsertDeviceAuth :: "env \<Rightarrow> DeviceAuth \<Rightarrow> world \<Rightarrow> err option \<times> DeviceAuth \<times> world" where
  "InsertDeviceAuth E dev0 w =
     (let dev = dev0\<lparr>ID := fst (NewObjectId E)\<rparr>;
          dev = dev\<lparr>DeviceId := snd (NewObjectId E)\<rparr>;
          w1 = w\<lparr>store_writes := store_writes w @ [CallInsertDeviceAuth dev]\<rparr> in
      case EnsureIndex_fault E of
        Some e \<Rightarrow> (Some e, dev, w1)
      | None \<Rightarrow>
          (case mgo_Insert (Insert_fault E) dev (coll w1) of
             (Some e, c) \<Rightarrow> (Some (Wrapped e ''failed to insert device''), dev, w1\<lparr>coll := c\<rparr>)
           | (None, c) \<Rightarrow> (None, dev, w1\<lparr>coll := c\<rparr>)))"

section \<open>The remote-authenticator client\<close>

text \<open>
  \<^verbatim>\<open>strings.NewReplacer(pairs).Replace(s)\<close>: the string is read from left to right; at
  each position the pairs are tried in argument order, the first whose old string
  starts there is replaced (the replacement is not read again), and where none does the
  byte is copied. The counter is the number of bytes of a matched old string still to
  be skipped.
\<close>

fun replace_go :: "(string \<times> string) list \<Rightarrow> nat \<Rightarrow> string \<Rightarrow> string" where
  "replace_go ps k [] = []"
| "replace_go ps (Suc k) (c # cs) = replace_go ps k cs"
| "replace_go ps 0 (c # cs) =
     (case find (\<lambda>(old, new). old \<noteq> [] \<and> take (length old) (c # cs) = old) ps of
        Some (old, new) \<Rightarrow> new @ replace_go ps (length old - 1) cs
      | None \<Rightarrow> c # replace_go ps 0 cs)"

definition defaultDevAuthDevicesUri :: string where
  "defaultDevAuthDevicesUri = ''/api/management/v1/devauth/devices/{id}/auth/{aid}/status''"

definition defaultPreauthorizeDeviceUri :: string where
  "defaultPreauthorizeDeviceUri = ''/api/management/v1/devauth/devices''"

text \<open>Ten seconds, in nanoseconds (\<^verbatim>\<open>time.Duration\<close>).\<close>

definition defaultDevAuthReqTimeout :: int where
  "defaultDevAuthReqTimeout = 10 * 1000000000"

definition NewClient :: "Config \<Rightarrow> Config" where
  "NewClient c = (if Timeout c = 0 then c\<lparr>Timeout := defaultDevAuthReqTimeout\<rparr> else c)"

definition buildDevAuthUpdateUrl :: "Config \<Rightarrow> StatusReq \<Rightarrow> string" where
  "buildDevAuthUpdateUrl conf req =
     replace_go [(''{id}'', sr_DeviceId req), (''{aid}'', sr_AuthId req)] 0
       (DevauthUrl conf @ defaultDevAuthDevicesUri)"

definition StatusNoContent :: int where
  "StatusNoContent = 204"

definition StatusUnprocessableEntity :: int where
  "StatusUnprocessableEntity = 422"

definition StatusCreated :: int where
  "StatusCreated = 201"

text \<open>
  The \<^verbatim>\<open>switch\<close> of \<^verbatim>\<open>UpdateDevice\<close> on the response. \<^verbatim>\<open>utils.NewUsageError\<close> is
  given \<^verbatim>\<open>err.Error()\<close>, which for an \<open>ApiError\<close> is its message field.
\<close>

definition UpdateDevice_response :: "env \<Rightarrow> Response \<Rightarrow> err option" where
  "UpdateDevice_response E rsp =
     (if StatusCode rsp = StatusNoContent then None
      else if StatusCode rsp = StatusUnprocessableEntity then
        (let e = ParseApiError E (rsp_Body rsp) in
         if IsApiError e
         then (case e of ApiError m r \<Rightarrow> Some (UsageError m) | _ \<Rightarrow> Some (UsageError []))
         else Some (Wrapped e ''device status update request failed''))
      else Some (errors_New (''device status update request failed with status '' @ rsp_Status rsp)))"

definition Client_UpdateDevice :: "env \<Rightarrow> Config \<Rightarrow> StatusReq \<Rightarrow> err option" where
  "Client_UpdateDevice E conf sreq =
     (let url = buildDevAuthUpdateUrl conf sreq in
      case NewRequest_fault E url of
        Some e \<Rightarrow> Some (Wrapped e ''failed to prepare dev auth request'')
      | None \<Rightarrow>
          (let req = \<lparr>Method = ''PUT'', URL = url,
                      Header = [(''Content-Type'', ''application/json'')],
                      Body = StatusReqJson (sr_Status sreq),
                      ctx_Timeout = Timeout conf\<rparr> in
           case client_Do E req of
             Inl e \<Rightarrow> Some (Wrapped e ''failed to update device status'')
           | Inr rsp \<Rightarrow> UpdateDevice_response E rsp))"

definition Client_PreauthorizeDevice :: "env \<Rightarrow> Config \<Rightarrow> PreAuthReq \<Rightarrow> string \<Rightarrow> err option" where
  "Client_PreauthorizeDevice E conf preAuthReq authorizationHeader =
     (let url = DevauthUrl conf @ defaultPreauthorizeDeviceUri in
      case NewRequest_fault E url of
        Some e \<Rightarrow> Some (Wrapped e ''failed to prepare dev auth POST request'')
      | None \<Rightarrow>
          (let req = \<lparr>Method = ''POST'', URL = url,
                      Header = [(''Content-Type'', ''application/json''),
                                (''Authorization'', authorizationHeader)],
                      Body = PreAuthReqJson (pa_DeviceId preAuthReq) (pa_AuthSetId preAuthReq)
                               (pa_IdData preAuthReq) (pa_PubKey preAuthReq),
                      ctx_Timeout = Timeout conf\<rparr> in
           case client_Do E req of
             Inl e \<Rightarrow> Some (Wrapped e ''failed to preauthorize device'')
           | Inr rsp \<Rightarrow>
               (if StatusCode rsp = StatusCreated then None
                else Some (errors_New
                  (''device preauthorize request failed with status '' @ rsp_Status rsp)))))"

section \<open>The admission engine (DevAdm)\<close>

definition SubmitDeviceAuth :: "env \<Rightarrow> DeviceAuth \<Rightarrow> world \<Rightarrow> err option \<times> world" where
  "SubmitDeviceAuth E dev0 w =
     (let now = time_Now E;
          dev = dev0\<lparr>RequestTime := Some now\<rparr> in
      case PutDeviceAuth E dev w of
        (Some e, w1) \<Rightarrow> (Some (Wrapped e ''failed to put device''), w1)
      | (None, w1) \<Rightarrow> (None, w1))"

definition AcceptDevicePreAuth :: "env \<Rightarrow> string \<Rightarrow> world \<Rightarrow> err option \<times> world" where
  "AcceptDevicePreAuth E i w =
     (case GetDeviceAuth E i w of
        Inl e \<Rightarrow>
          (if e = store_ErrNotFound then (Some ErrAuthNotFound, w)
           else (Some (Wrapped e ''failed to fetch auth set''), w))
      | Inr dev \<Rightarrow>
          (if Status dev \<noteq> DevStatusPreauthorized then (Some ErrNotPreauthorized, w)
           else
             (case UpdateDeviceAuth E
                     (DeviceAuth_zero\<lparr>ID := ID dev, Status := DevStatusAccepted\<rparr>) w of
                (Some e, w1) \<Rightarrow> (Some (Wrapped e ''failed to update auth set''), w1)
              | (None, w1) \<Rightarrow> (None, w1))))"

definition propagateDeviceAuthUpdate :: "env \<Rightarrow> DeviceAuth \<Rightarrow> world \<Rightarrow> err option \<times> world" where
  "propagateDeviceAuthUpdate E dev w =
     (let cl = NewClient (authclientconf E);
          sreq = \<lparr>sr_DeviceId = DeviceId dev, sr_AuthId = ID dev, sr_Status = Status dev\<rparr>;
          w1 = w\<lparr>remote_calls := remote_calls w @ [CallUpdateDevice sreq]\<rparr> in
      case Client_UpdateDevice E cl sreq of
        Some e \<Rightarrow>
          (if IsUsageError e then (Some e, w1)
           else (Some (Wrapped e ''failed to propagate device status update''), w1))
      | None \<Rightarrow> (None, w1))"

definition updateDeviceAuthStatus :: "env \<Rightarrow> string \<Rightarrow> string \<Rightarrow> world \<Rightarrow> err option \<times> world" where
  "updateDeviceAuthStatus E i status w =
     (case GetDeviceAuth E i w of
        Inl e \<Rightarrow> (Some e, w)
      | Inr dev0 \<Rightarrow>
          (let dev = dev0\<lparr>Status := status\<rparr> in
           case propagateDeviceAuthUpdate E dev w of
             (Some e, w1) \<Rightarrow> (Some e, w1)
           | (None, w1) \<Rightarrow>
               (case PutDeviceAuth E
                       (DeviceAuth_zero\<lparr>ID := ID dev, DeviceId := DeviceId dev,
                                         Status := Status dev\<rparr>) w1 of
                  (Some e, w2) \<Rightarrow> (Some e, w2)
                | (None, w2) \<Rightarrow> (None, w2))))"

definition AcceptDeviceAuth :: "env \<Rightarrow> string \<Rightarrow> world \<Rightarrow> err option \<times> world" where
  "AcceptDeviceAuth E i w = updateDeviceAuthStatus E i DevStatusAccepted w"

definition RejectDeviceAuth :: "env \<Rightarrow> string \<Rightarrow> world \<Rightarrow> err option \<times> world" where
  "RejectDeviceAuth E i w = updateDeviceAuthStatus E i DevStatusRejected w"

definition propagatePreauthorizeDevice ::
  "env \<Rightarrow> DeviceAuth \<Rightarrow> string \<Rightarrow> world \<Rightarrow> err option \<times> world" where
  "propagatePreauthorizeDevice E dev authorizationHeader w =
     (let cl = NewClient (authclientconf E);
          preq = \<lparr>pa_DeviceId = DeviceId dev, pa_AuthSetId = ID dev,
                  pa_IdData = DeviceIdentity dev, pa_PubKey = Key dev\<rparr>;
          w1 = w\<lparr>remote_calls := remote_calls w @ [CallPreauthorizeDevice preq authorizationHeader]\<rparr> in
      (errors_Wrap (Client_PreauthorizeDevice E cl preq authorizationHeader)
         ''failed to propagate device status update'', w1))"

definition PreauthorizeDevice :: "env \<Rightarrow> AuthSet \<Rightarrow> string \<Rightarrow> world \<Rightarrow> err option \<times> world" where
  "PreauthorizeDevice E authSet authorizationHeader w =
     (case GetDeviceAuthsByIdentityData E (as_DeviceId authSet) w of
        (deviceAuths, Some e) \<Rightarrow> (Some e, w)
      | (deviceAuths, None) \<Rightarrow>
          (if length deviceAuths > 0 then (Some AuthSetConflictError, w)
           else
             (let dev = DeviceAuth_zero;
                  dev = dev\<lparr>DeviceIdentity := as_DeviceId authSet\<rparr>;
                  dev = dev\<lparr>Status := DevStatusPreauthorized\<rparr>;
                  dev = dev\<lparr>Attributes := as_Attributes authSet\<rparr>;
                  dev = dev\<lparr>Key := as_Key authSet\<rparr>;
                  now = clock_Now E;
                  dev = dev\<lparr>RequestTime := Some now\<rparr> in
              case InsertDeviceAuth E dev w of
                (Some e, dev1, w1) \<Rightarrow> (Some e, w1)
              | (None, dev1, w1) \<Rightarrow> propagatePreauthorizeDevice E dev1 authorizationHeader w1)))"

section \<open>An example environment and state\<close>

text \<open>
  A database and a remote authenticator that answer every call: the status update with
  204, the pre-authorization with 201. The state holds one pending auth set with every
  field populated.
\<close>

definition ex_env :: env where
  "ex_env =
     \<lparr>EnsureIndex_fault = None, Find_fault = None, Upsert_fault = None,
      Update_fault = None, Insert_fault = None, Remove_fault = None,
      RemoveAll_fault = None,
      NewObjectId = (''a2'', ''d2''),
      authclientconf = \<lparr>DevauthUrl = ''http://devauth'', Timeout = 0\<rparr>,
      NewRequest_fault = (\<lambda>u. None),
      client_Do = (\<lambda>req.
        if Method req = ''PUT''
        then Inr \<lparr>StatusCode = 204, rsp_Status = ''204 No Content'', rsp_Body = []\<rparr>
        else Inr \<lparr>StatusCode = 201, rsp_Status = ''201 Created'', rsp_Body = []\<rparr>),
      ParseApiError = (\<lambda>b. ApiError b []),
      time_Now = 7,
      clock_Now = 9\<rparr>"

definition ex_record :: DeviceAuth where
  "ex_record =
     \<lparr>ID = ''a1'', DeviceId = ''d1'', DeviceIdentity = ''X'', Key = ''k'',
      Status = ''pending'', Attributes = [(''mac'', ''00'')], RequestTime = Some 1\<rparr>"

definition ex_world :: world where
  "ex_world = \<lparr>coll = [ex_record], store_writes = [], remote_calls = []\<rparr>"

section \<open>Lemmas on the store\<close>

lemma genDeviceAuthUpdate_eq: "genDeviceAuthUpdate u = u\<lparr>ID := []\<rparr>"
  by (cases u) (simp add: genDeviceAuthUpdate_def DeviceAuth_zero_def Let_def)

lemma bson_set_keeps_empty:
  "ID (bson_set (genDeviceAuthUpdate u) r) = ID r"
  "DeviceId u = [] \<Longrightarrow> DeviceId (bson_set (genDeviceAuthUpdate u) r) = DeviceId r"
  "DeviceIdentity u = [] \<Longrightarrow>
     DeviceIdentity (bson_set (genDeviceAuthUpdate u) r) = DeviceIdentity r"
  "Key u = [] \<Longrightarrow> Key (bson_set (genDeviceAuthUpdate u) r) = Key r"
  "Status u = [] \<Longrightarrow> Status (bson_set (genDeviceAuthUpdate u) r) = Status r"
  "Attributes u = [] \<Longrightarrow> Attributes (bson_set (genDeviceAuthUpdate u) r) = Attributes r"
  "RequestTime u = None \<Longrightarrow> RequestTime (bson_set (genDeviceAuthUpdate u) r) = RequestTime r"
  by (simp_all add: genDeviceAuthUpdate_eq bson_set_def)

lemma bson_set_takes_status:
  "Status u \<noteq> [] \<Longrightarrow> Status (bson_set (genDeviceAuthUpdate u) r) = Status u"
  by (simp add: genDeviceAuthUpdate_eq bson_set_def)

lemma bson_set_status_only:
  "s \<noteq> [] \<Longrightarrow>
   bson_set (genDeviceAuthUpdate (DeviceAuth_zero\<lparr>ID := i, Status := s\<rparr>)) r = r\<lparr>Status := s\<rparr>"
  by (cases r) (simp add: genDeviceAuthUpdate_eq bson_set_def DeviceAuth_zero_def)

lemma find_Some_holds: "find p c = Some r \<Longrightarrow> p r"
  by (induction c) (auto split: if_splits)

lemma find_update_first:
  "find p c = Some r \<Longrightarrow> p (f r) \<Longrightarrow> find p (update_first p f c) = Some (f r)"
  by (induction c) (auto split: if_splits)

lemma map_update_first:
  "(\<And>d. g (f d) = g d) \<Longrightarrow> map g (update_first p f c) = map g c"
  by (induction c) auto

lemma find_append_new: "find p c = None \<Longrightarrow> p d \<Longrightarrow> find p (c @ [d]) = Some d"
  by (induction c) (auto split: if_splits)

lemma id_is_bson_set_gen: "id_is i r \<Longrightarrow> id_is i (bson_set (genDeviceAuthUpdate u) r)"
  by (simp add: id_is_def bson_set_keeps_empty(1))

lemma find_id_update_first:
  "find (id_is i) c = Some r \<Longrightarrow>
   find (id_is i) (update_first (id_is i) (bson_set (genDeviceAuthUpdate u)) c) =
     Some (bson_set (genDeviceAuthUpdate u) r)"
  by (rule find_update_first) (auto dest: find_Some_holds intro: id_is_bson_set_gen)

lemma PutDeviceAuth_stored:
  assumes "find (id_is (ID u)) (coll w) = Some r"
  shows "find (id_is (ID u)) (coll (snd (PutDeviceAuth E u w))) =
           Some (if fst (PutDeviceAuth E u w) = None
                 then bson_set (genDeviceAuthUpdate u) r else r)"
  using assms
  by (auto simp: PutDeviceAuth_def mgo_Upsert_def Let_def find_id_update_first
           split: option.splits)

lemma UpdateDeviceAuth_stored:
  assumes "find (id_is (ID u)) (coll w) = Some r"
  shows "find (id_is (ID u)) (coll (snd (UpdateDeviceAuth E u w))) =
           Some (if fst (UpdateDeviceAuth E u w) = None
                 then bson_set (genDeviceAuthUpdate u) r else r)"
  using assms
  by (auto simp: UpdateDeviceAuth_def mgo_Update_def Let_def find_id_update_first
           split: option.splits)

section \<open>Partial updates merge by field\<close>

lemma PutDeviceAuth_succeeds:
  "(fst (PutDeviceAuth E u w) = None) = (EnsureIndex_fault E = None \<and> Upsert_fault E = None)"
  by (auto simp: PutDeviceAuth_def mgo_Upsert_def Let_def split: option.splits)

lemma UpdateDeviceAuth_succeeds:
  "find (id_is (ID u)) (coll w) = Some r \<Longrightarrow>
   (fst (UpdateDeviceAuth E u w) = None) = (EnsureIndex_fault E = None \<and> Update_fault E = None)"
  by (auto simp: UpdateDeviceAuth_def mgo_Update_def Let_def split: option.splits)

lemma bson_set_gen_fields:
  "bson_set (genDeviceAuthUpdate u) r =
     \<lparr>ID = ID r,
      DeviceId = (if DeviceId u = [] then DeviceId r else DeviceId u),
      DeviceIdentity = (if DeviceIdentity u = [] then DeviceIdentity r else DeviceIdentity u),
      Key = (if Key u = [] then Key r else Key u),
      Status = (if Status u = [] then Status r else Status u),
      Attributes = (if Attributes u = [] then Attributes r else Attributes u),
      RequestTime = (if RequestTime u = None then RequestTime r else RequestTime u)\<rparr>"
  by (simp add: genDeviceAuthUpdate_eq bson_set_def)

text \<open>
  Claim C5. Let \<open>r\<close> be the stored record with the id of the argument \<open>u\<close>, and let
  \<open>op\<close> be \<^verbatim>\<open>PutDeviceAuth\<close> or \<^verbatim>\<open>UpdateDeviceAuth\<close>, called with \<open>u\<close>; \<open>fault\<close>
  is the failure the database reports for its write (\<^verbatim>\<open>Upsert\<close>, \<^verbatim>\<open>Update\<close>), if
  any. The call returns nil exactly when the database reports no failure, neither for
  the index nor for the write. Then the record stored under the id is \<open>r\<close> with each
  field replaced by the field of \<open>u\<close> where that one is not empty and left as it was
  where it is empty; in particular, when \<open>u\<close> carries nothing but the id and a
  status, the call returns nil and the stored record is \<open>r\<close> with the status
  replaced, so the stored status changes to the new one and every other field
  (deviceId, deviceIdentity, key, attributes, requestTime) is identical. When the
  database reports a failure the call returns an error and the stored record is \<open>r\<close>.
  In every case a record \<open>r'\<close> is still stored under the id, and every field that is
  empty in \<open>u\<close> has in \<open>r'\<close> the value it had in \<open>r\<close>: an empty value never nulls
  out a stored one.
\<close>

theorem partial_update_merges_by_field:
  assumes stored: "find (id_is (ID u)) (coll w) = Some r"
      and which: "(op, fault) \<in> {(PutDeviceAuth, Upsert_fault E),
                                  (UpdateDeviceAuth, Update_fault E)}"
  shows "((fst (op E u w) = None) = (EnsureIndex_fault E = None \<and> fault = None)) \<and>
         find (id_is (ID u)) (coll (snd (op E u w))) =
           Some (if EnsureIndex_fault E = None \<and> fault = None
                 then \<lparr>ID = ID r,
                       DeviceId = (if DeviceId u = [] then DeviceId r else DeviceId u),
                       DeviceIdentity =
                         (if DeviceIdentity u = [] then DeviceIdentity r else DeviceIdentity u),
                       Key = (if Key u = [] then Key r else Key u),
                       Status = (if Status u = [] then Status r else Status u),
                       Attributes = (if Attributes u = [] then Attributes r else Attributes u),
                       RequestTime =
                         (if RequestTime u = None then RequestTime r else RequestTime u)\<rparr>
                 else r) \<and>
         (EnsureIndex_fault E = None \<and> fault = None \<and> Status u \<noteq> [] \<and>
          u = DeviceAuth_zero\<lparr>ID := ID u, Status := Status u\<rparr> \<longrightarrow>
            fst (op E u w) = None \<and>
            find (id_is (ID u)) (coll (snd (op E u w))) = Some (r\<lparr>Status := Status u\<rparr>)) \<and>
         (\<exists>r'. find (id_is (ID u)) (coll (snd (op E u w))) = Some r' \<and>
            ID r' = ID r \<and>
            (DeviceId u = [] \<longrightarrow> DeviceId r' = DeviceId r) \<and>
            (DeviceIdentity u = [] \<longrightarrow> DeviceIdentity r' = DeviceIdentity r) \<and>
            (Key u = [] \<longrightarrow> Key r' = Key r) \<and>
            (Status u = [] \<longrightarrow> Status r' = Status r) \<and>
            (Attributes u = [] \<longrightarrow> Attributes r' = Attributes r) \<and>
            (RequestTime u = None \<longrightarrow> RequestTime r' = RequestTime r))"
proof -
  let ?m = "bson_set (genDeviceAuthUpdate u) r"
  let ?ok = "EnsureIndex_fault E = None \<and> fault = None"
  have ret: "(fst (op E u w) = None) = ?ok"
    using which PutDeviceAuth_succeeds [of E u w] UpdateDeviceAuth_succeeds [OF stored, of E]
    by auto
  have "find (id_is (ID u)) (coll (snd (op E u w))) =
          Some (if fst (op E u w) = None then ?m else r)"
    using which PutDeviceAuth_stored [OF stored, of E] UpdateDeviceAuth_stored [OF stored, of E]
    by auto
  then have after: "find (id_is (ID u)) (coll (snd (op E u w))) = Some (if ?ok then ?m else r)"
    by (simp only: ret)
  have only: "u = DeviceAuth_zero\<lparr>ID := ID u, Status := Status u\<rparr> \<Longrightarrow> Status u \<noteq> [] \<Longrightarrow>
                ?m = r\<lparr>Status := Status u\<rparr>"
    using bson_set_status_only [of "Status u" "ID u" r] by simp
  let ?merged =
    "\<lparr>ID = ID r,
      DeviceId = (if DeviceId u = [] then DeviceId r else DeviceId u),
      DeviceIdentity = (if DeviceIdentity u = [] then DeviceIdentity r else DeviceIdentity u),
      Key = (if Key u = [] then Key r else Key u),
      Status = (if Status u = [] then Status r else Status u),
      Attributes = (if Attributes u = [] then Attributes r else Attributes u),
      RequestTime = (if RequestTime u = None then RequestTime r else RequestTime u)\<rparr>"
  have c2: "find (id_is (ID u)) (coll (snd (op E u w))) = Some (if ?ok then ?merged else r)"
    using after bson_set_gen_fields [of u r] by simp
  have c3: "?ok \<and> Status u \<noteq> [] \<and> u = DeviceAuth_zero\<lparr>ID := ID u, Status := Status u\<rparr> \<longrightarrow>
            fst (op E u w) = None \<and>
            find (id_is (ID u)) (coll (snd (op E u w))) = Some (r\<lparr>Status := Status u\<rparr>)"
  proof
    assume h: "?ok \<and> Status u \<noteq> [] \<and> u = DeviceAuth_zero\<lparr>ID := ID u, Status := Status u\<rparr>"
    then have "find (id_is (ID u)) (coll (snd (op E u w))) = Some ?m"
      using after by simp
    moreover have "?m = r\<lparr>Status := Status u\<rparr>"
      using h only by blast
    moreover have "fst (op E u w) = None"
      using h ret by blast
    ultimately show "fst (op E u w) = None \<and>
        find (id_is (ID u)) (coll (snd (op E u w))) = Some (r\<lparr>Status := Status u\<rparr>)"
      by simp
  qed
  have c4: "\<exists>r'. find (id_is (ID u)) (coll (snd (op E u w))) = Some r' \<and>
            ID r' = ID r \<and>
            (DeviceId u = [] \<longrightarrow> DeviceId r' = DeviceId r) \<and>
            (DeviceIdentity u = [] \<longrightarrow> DeviceIdentity r' = DeviceIdentity r) \<and>
            (Key u = [] \<longrightarrow> Key r' = Key r) \<and>
            (Status u = [] \<longrightarrow> Status r' = Status r) \<and>
            (Attributes u = [] \<longrightarrow> Attributes r' = Attributes r) \<and>
            (RequestTime u = None \<longrightarrow> RequestTime r' = RequestTime r)"
  proof (cases ?ok)
    case True
    have "find (id_is (ID u)) (coll (snd (op E u w))) = Some ?m"
      using after True by simp
    then show ?thesis
      by (simp add: bson_set_keeps_empty)
  next
    case False
    have "find (id_is (ID u)) (coll (snd (op E u w))) = Some r"
      using after by (simp only: if_not_P [OF False])
    then show ?thesis
      by simp
  qed
  have c3': "EnsureIndex_fault E = None \<and> fault = None \<and> Status u \<noteq> [] \<and>
             u = DeviceAuth_zero\<lparr>ID := ID u, Status := Status u\<rparr> \<longrightarrow>
            fst (op E u w) = None \<and>
            find (id_is (ID u)) (coll (snd (op E u w))) = Some (r\<lparr>Status := Status u\<rparr>)"
    using c3 by blast
  show ?thesis
    using ret c2 c3' c4 by (intro conjI)
qed

theorem partial_update_merges_by_field_witness:
  "find (id_is ''a1'') (coll ex_world) = Some ex_record \<and>
   fst (PutDeviceAuth ex_env (DeviceAuth_zero\<lparr>ID := ''a1'', Status := ''accepted''\<rparr>) ex_world) = None \<and>
   find (id_is ''a1'')
     (coll (snd (PutDeviceAuth ex_env (DeviceAuth_zero\<lparr>ID := ''a1'', Status := ''accepted''\<rparr>) ex_world))) =
     Some (ex_record\<lparr>Status := ''accepted''\<rparr>) \<and>
   fst (UpdateDeviceAuth ex_env (DeviceAuth_zero\<lparr>ID := ''a1'', Status := ''rejected''\<rparr>) ex_world) = None \<and>
   find (id_is ''a1'')
     (coll (snd (UpdateDeviceAuth ex_env (DeviceAuth_zero\<lparr>ID := ''a1'', Status := ''rejected''\<rparr>) ex_world))) =
     Some (ex_record\<lparr>Status := ''rejected''\<rparr>) \<and>
   fst (UpdateDeviceAuth (ex_env\<lparr>Update_fault := Some (errors_New ''i/o timeout'')\<rparr>)
          (DeviceAuth_zero\<lparr>ID := ''a1'', Status := ''rejected''\<rparr>) ex_world) \<noteq> None \<and>
   find (id_is ''a1'')
     (coll (snd (UpdateDeviceAuth (ex_env\<lparr>Update_fault := Some (errors_New ''i/o timeout'')\<rparr>)
          (DeviceAuth_zero\<lparr>ID := ''a1'', Status := ''rejected''\<rparr>) ex_world))) =
     Some ex_record"
proof -
  let ?u = "DeviceAuth_zero\<lparr>ID := ''a1'', Status := ''accepted''\<rparr>"
  let ?v = "DeviceAuth_zero\<lparr>ID := ''a1'', Status := ''rejected''\<rparr>"
  let ?F = "ex_env\<lparr>Update_fault := Some (errors_New ''i/o timeout'')\<rparr>"
  have su: "find (id_is (ID ?u)) (coll ex_world) = Some ex_record"
    by (simp add: ex_world_def ex_record_def id_is_def)
  have sv: "find (id_is (ID ?v)) (coll ex_world) = Some ex_record"
    by (simp add: ex_world_def ex_record_def id_is_def)
  have put: "(PutDeviceAuth, Upsert_fault ex_env) \<in>
               {(PutDeviceAuth, Upsert_fault ex_env), (UpdateDeviceAuth, Update_fault ex_env)}"
    by simp
  have upd: "(UpdateDeviceAuth, Update_fault ex_env) \<in>
               {(PutDeviceAuth, Upsert_fault ex_env), (UpdateDeviceAuth, Update_fault ex_env)}"
    by simp
  have updF: "(UpdateDeviceAuth, Update_fault ?F) \<in>
               {(PutDeviceAuth, Upsert_fault ?F), (UpdateDeviceAuth, Update_fault ?F)}"
    by simp
  have nofault: "EnsureIndex_fault ex_env = None" "Upsert_fault ex_env = None"
      "Update_fault ex_env = None" "EnsureIndex_fault ?F = None"
      "Update_fault ?F = Some (errors_New ''i/o timeout'')"
    by (simp_all add: ex_env_def)
  have u: "?u = DeviceAuth_zero\<lparr>ID := ID ?u, Status := Status ?u\<rparr>" "Status ?u \<noteq> []"
          "ID ?u = ''a1''" "Status ?u = ''accepted''"
    by simp_all
  have v: "?v = DeviceAuth_zero\<lparr>ID := ID ?v, Status := Status ?v\<rparr>" "Status ?v \<noteq> []"
          "ID ?v = ''a1''" "Status ?v = ''rejected''"
    by simp_all
  have a: "fst (PutDeviceAuth ex_env ?u ex_world) = None \<and>
           find (id_is ''a1'') (coll (snd (PutDeviceAuth ex_env ?u ex_world))) =
             Some (ex_record\<lparr>Status := ''accepted''\<rparr>)"
    using partial_update_merges_by_field [OF su put] nofault u by metis
  have b: "fst (UpdateDeviceAuth ex_env ?v ex_world) = None \<and>
           find (id_is ''a1'') (coll (snd (UpdateDeviceAuth ex_env ?v ex_world))) =
             Some (ex_record\<lparr>Status := ''rejected''\<rparr>)"
    using partial_update_merges_by_field [OF sv upd] nofault v by metis
  have c: "fst (UpdateDeviceAuth ?F ?v ex_world) \<noteq> None \<and>
           find (id_is ''a1'') (coll (snd (UpdateDeviceAuth ?F ?v ex_world))) = Some ex_record"
    using partial_update_merges_by_field [OF sv updF] nofault(4,5) v(3) by simp
  show ?thesis
    using su a b c by simp
qed

section \<open>Deleting the auth sets of a device\<close>

text \<open>
  Claim C10. When the removal reports an error, \<^verbatim>\<open>DeleteDeviceAuthByDevice\<close> returns
  nil and the collection is as it was: the failure is swallowed. It returns
  \<^verbatim>\<open>store.ErrNotFound\<close> exactly when the removal succeeded and removed no record.
  Both hold of the final \<^verbatim>\<open>switch\<close> for every pair \<^verbatim>\<open>(ci, err)\<close> the driver could
  return: with an error the result is nil, and the result is the not-found error
  exactly when there is no error and the change info reports zero removed records.
\<close>

theorem DeleteDeviceAuthByDevice_swallows_removal_error:
  "(RemoveAll_fault E = Some e \<longrightarrow>
      DeleteDeviceAuthByDevice E i w =
        (None, w\<lparr>store_writes := store_writes w @ [CallDeleteDeviceAuthByDevice i]\<rparr>)) \<and>
   ((fst (DeleteDeviceAuthByDevice E i w) = Some store_ErrNotFound) =
      (RemoveAll_fault E = None \<and>
       filter (bson_match (DeviceAuth_zero\<lparr>DeviceId := i\<rparr>)) (coll w) = [])) \<and>
   DeleteDeviceAuthByDevice_switch ci (Some e) = None \<and>
   ((DeleteDeviceAuthByDevice_switch ci er = Some store_ErrNotFound) =
      (er = None \<and> (\<exists>info. ci = Some info \<and> Removed info = 0)))"
  by (cases "RemoveAll_fault E"; cases ci; cases er)
     (simp_all add: DeleteDeviceAuthByDevice_def DeleteDeviceAuthByDevice_switch_def
        mgo_RemoveAll_def errors_Wrap_def Let_def)

theorem DeleteDeviceAuthByDevice_swallows_removal_error_witness:
  "DeleteDeviceAuthByDevice (ex_env\<lparr>RemoveAll_fault := Some (errors_New ''i/o timeout'')\<rparr>) ''d1'' ex_world =
     (None, ex_world\<lparr>store_writes := [CallDeleteDeviceAuthByDevice ''d1'']\<rparr>) \<and>
   fst (DeleteDeviceAuthByDevice ex_env ''d9'' ex_world) = Some store_ErrNotFound \<and>
   fst (DeleteDeviceAuthByDevice ex_env ''d1'' ex_world) = None"
  using DeleteDeviceAuthByDevice_swallows_removal_error
          [of "ex_env\<lparr>RemoveAll_fault := Some (errors_New ''i/o timeout'')\<rparr>"
              "errors_New ''i/o timeout''" "''d1''" ex_world None None]
        DeleteDeviceAuthByDevice_swallows_removal_error
          [of ex_env "errors_New ''i/o timeout''" "''d9''" ex_world None None]
        DeleteDeviceAuthByDevice_swallows_removal_error
          [of ex_env "errors_New ''i/o timeout''" "''d1''" ex_world None None]
  by (simp add: ex_env_def ex_world_def ex_record_def bson_match_def DeviceAuth_zero_def
        DeleteDeviceAuthByDevice_def DeleteDeviceAuthByDevice_switch_def mgo_RemoveAll_def
        errors_Wrap_def Let_def)

section \<open>Classification of the response to a status update\<close>

text \<open>
  Claim C7. Let the request of \<^verbatim>\<open>UpdateDevice\<close> be built and answered by the
  response \<open>rsp\<close>. With status 204 the result is nil. With status 422 and a body
  that \<^verbatim>\<open>ParseApiError\<close> reads as an API error, the result is the usage error made of
  that error's message; with status 422 and a body it cannot read, the result is the
  parse error wrapped with "device status update request failed". With any other
  status the result is the error "device status update request failed with status"
  followed by the status text of the response.
\<close>

theorem UpdateDevice_classifies_response:
  assumes built: "NewRequest_fault E (buildDevAuthUpdateUrl conf sreq) = None"
      and answered:
        "client_Do E
           \<lparr>Method = ''PUT'', URL = buildDevAuthUpdateUrl conf sreq,
            Header = [(''Content-Type'', ''application/json'')],
            Body = StatusReqJson (sr_Status sreq), ctx_Timeout = Timeout conf\<rparr> = Inr rsp"
  shows "(StatusCode rsp = 204 \<longrightarrow> Client_UpdateDevice E conf sreq = None) \<and>
         (StatusCode rsp = 422 \<and> IsApiError (ParseApiError E (rsp_Body rsp)) \<longrightarrow>
            (\<exists>m r. ParseApiError E (rsp_Body rsp) = ApiError m r \<and>
                   Client_UpdateDevice E conf sreq = Some (UsageError m)) \<and>
            (\<exists>x. Client_UpdateDevice E conf sreq = Some x \<and> IsUsageError x)) \<and>
         (StatusCode rsp = 422 \<and> \<not> IsApiError (ParseApiError E (rsp_Body rsp)) \<longrightarrow>
            Client_UpdateDevice E conf sreq =
              Some (Wrapped (ParseApiError E (rsp_Body rsp)) ''device status update request failed'')) \<and>
         (StatusCode rsp \<noteq> 204 \<and> StatusCode rsp \<noteq> 422 \<longrightarrow>
            Client_UpdateDevice E conf sreq =
              Some (errors_New (''device status update request failed with status '' @ rsp_Status rsp)))"
proof -
  have run: "Client_UpdateDevice E conf sreq = UpdateDevice_response E rsp"
    using built answered by (simp add: Client_UpdateDevice_def Let_def)
  show ?thesis
    unfolding run
    by (cases "ParseApiError E (rsp_Body rsp)")
       (simp_all add: UpdateDevice_response_def StatusNoContent_def
          StatusUnprocessableEntity_def Let_def)
qed

theorem UpdateDevice_classifies_response_witness:
  "Client_UpdateDevice ex_env (authclientconf ex_env)
     \<lparr>sr_DeviceId = ''d1'', sr_AuthId = ''a1'', sr_Status = ''accepted''\<rparr> = None \<and>
   Client_UpdateDevice
     (ex_env\<lparr>client_Do := (\<lambda>req. Inr \<lparr>StatusCode = 422,
        rsp_Status = ''422 Unprocessable Entity'', rsp_Body = ''bad status''\<rparr>)\<rparr>)
     (authclientconf ex_env)
     \<lparr>sr_DeviceId = ''d1'', sr_AuthId = ''a1'', sr_Status = ''bogus''\<rparr> =
     Some (UsageError ''bad status'')"
proof -
  let ?E = "ex_env\<lparr>client_Do := (\<lambda>req. Inr \<lparr>StatusCode = 422,
              rsp_Status = ''422 Unprocessable Entity'', rsp_Body = ''bad status''\<rparr>)\<rparr>"
  let ?c = "authclientconf ex_env"
  let ?s1 = "\<lparr>sr_DeviceId = ''d1'', sr_AuthId = ''a1'', sr_Status = ''accepted''\<rparr>"
  let ?s2 = "\<lparr>sr_DeviceId = ''d1'', sr_AuthId = ''a1'', sr_Status = ''bogus''\<rparr>"
  have b1: "NewRequest_fault ex_env (buildDevAuthUpdateUrl ?c ?s1) = None"
    by (simp add: ex_env_def)
  have a1: "client_Do ex_env
              \<lparr>Method = ''PUT'', URL = buildDevAuthUpdateUrl ?c ?s1,
               Header = [(''Content-Type'', ''application/json'')],
               Body = StatusReqJson (sr_Status ?s1), ctx_Timeout = Timeout ?c\<rparr> =
            Inr \<lparr>StatusCode = 204, rsp_Status = ''204 No Content'', rsp_Body = []\<rparr>"
    by (simp add: ex_env_def)
  have b2: "NewRequest_fault ?E (buildDevAuthUpdateUrl ?c ?s2) = None"
    by (simp add: ex_env_def)
  have a2: "client_Do ?E
              \<lparr>Method = ''PUT'', URL = buildDevAuthUpdateUrl ?c ?s2,
               Header = [(''Content-Type'', ''application/json'')],
               Body = StatusReqJson (sr_Status ?s2), ctx_Timeout = Timeout ?c\<rparr> =
            Inr \<lparr>StatusCode = 422, rsp_Status = ''422 Unprocessable Entity'',
                 rsp_Body = ''bad status''\<rparr>"
    by simp
  have p: "ParseApiError ?E ''bad status'' = ApiError ''bad status'' []"
    by (simp add: ex_env_def)
  have r1: "Client_UpdateDevice ex_env ?c ?s1 = None"
    using UpdateDevice_classifies_response [OF b1 a1] by simp
  have r2: "Client_UpdateDevice ?E ?c ?s2 = Some (UsageError ''bad status'')"
    using UpdateDevice_classifies_response [OF b2 a2] p by simp
  show ?thesis
    using r1 r2 by simp
qed

section \<open>A failed propagation commits nothing\<close>

lemma GetDeviceAuth_remote_calls [simp]:
  "GetDeviceAuth E i (w\<lparr>remote_calls := r\<rparr>) = GetDeviceAuth E i w"
  by (simp add: GetDeviceAuth_def)

lemma updateDeviceAuthStatus_remote_error:
  assumes found: "GetDeviceAuth E i w = Inr dev"
      and remote:
        "Client_UpdateDevice E (NewClient (authclientconf E))
           \<lparr>sr_DeviceId = DeviceId dev, sr_AuthId = ID dev, sr_Status = status\<rparr> = Some e"
  shows "updateDeviceAuthStatus E i status w =
           (Some (if IsUsageError e then e
                  else Wrapped e ''failed to propagate device status update''),
            w\<lparr>remote_calls := remote_calls w @
                 [CallUpdateDevice \<lparr>sr_DeviceId = DeviceId dev, sr_AuthId = ID dev, sr_Status = status\<rparr>]\<rparr>)"
  using found remote
  by (simp add: updateDeviceAuthStatus_def propagateDeviceAuthUpdate_def Let_def)

text \<open>
  Claim C1. Let \<open>op\<close> be \<^verbatim>\<open>AcceptDeviceAuth\<close> or \<^verbatim>\<open>RejectDeviceAuth\<close>, on an auth set
  that the store returns (\<open>dev\<close>), and let the remote authenticator's
  \<^verbatim>\<open>UpdateDevice\<close>, called with the identifiers of \<open>dev\<close> and the target status,
  return the error \<open>e\<close>. Then the caller gets \<open>e\<close> itself when it is a usage error and
  \<open>e\<close> wrapped with "failed to propagate device status update" otherwise; the
  collection is what it was, no write reached the store, and reading the auth set again
  gives \<open>dev\<close>, with the status it had before.
\<close>

theorem remote_failure_leaves_status_uncommitted:
  assumes which: "(op, status) \<in> {(AcceptDeviceAuth, DevStatusAccepted),
                                   (RejectDeviceAuth, DevStatusRejected)}"
      and found: "GetDeviceAuth E i w = Inr dev"
      and remote:
        "Client_UpdateDevice E (NewClient (authclientconf E))
           \<lparr>sr_DeviceId = DeviceId dev, sr_AuthId = ID dev, sr_Status = status\<rparr> = Some e"
  shows "fst (op E i w) =
           Some (if IsUsageError e then e
                 else Wrapped e ''failed to propagate device status update'') \<and>
         coll (snd (op E i w)) = coll w \<and>
         store_writes (snd (op E i w)) = store_writes w \<and>
         GetDeviceAuth E i (snd (op E i w)) = Inr dev"
proof -
  have run: "op E i w = updateDeviceAuthStatus E i status w"
    using which by (auto simp: AcceptDeviceAuth_def RejectDeviceAuth_def)
  show ?thesis
    unfolding run updateDeviceAuthStatus_remote_error [OF found remote]
    using found by simp
qed

theorem remote_failure_leaves_status_uncommitted_witness:
  "GetDeviceAuth
     (ex_env\<lparr>client_Do := (\<lambda>req. Inr \<lparr>StatusCode = 500, rsp_Status = ''500 Internal Server Error'', rsp_Body = []\<rparr>)\<rparr>)
     ''a1'' ex_world = Inr ex_record \<and>
   AcceptDeviceAuth
     (ex_env\<lparr>client_Do := (\<lambda>req. Inr \<lparr>StatusCode = 500, rsp_Status = ''500 Internal Server Error'', rsp_Body = []\<rparr>)\<rparr>)
     ''a1'' ex_world =
     (Some (Wrapped (errors_New ''device status update request failed with status 500 Internal Server Error'')
              ''failed to propagate device status update''),
      ex_world\<lparr>remote_calls :=
        [CallUpdateDevice \<lparr>sr_DeviceId = ''d1'', sr_AuthId = ''a1'', sr_Status = ''accepted''\<rparr>]\<rparr>)"
proof -
  let ?E = "ex_env\<lparr>client_Do := (\<lambda>req. Inr \<lparr>StatusCode = 500, rsp_Status = ''500 Internal Server Error'', rsp_Body = []\<rparr>)\<rparr>"
  let ?e = "errors_New ''device status update request failed with status 500 Internal Server Error''"
  have which: "(AcceptDeviceAuth, DevStatusAccepted) \<in>
                 {(AcceptDeviceAuth, DevStatusAccepted), (RejectDeviceAuth, DevStatusRejected)}"
    by simp
  have found: "GetDeviceAuth ?E ''a1'' ex_world = Inr ex_record"
    by (simp add: GetDeviceAuth_def mgo_One_def ex_env_def ex_world_def ex_record_def id_is_def)
  have remote:
    "Client_UpdateDevice ?E (NewClient (authclientconf ?E))
       \<lparr>sr_DeviceId = DeviceId ex_record, sr_AuthId = ID ex_record, sr_Status = DevStatusAccepted\<rparr> = Some ?e"
    by (simp add: Client_UpdateDevice_def UpdateDevice_response_def ex_env_def Let_def
          StatusNoContent_def StatusUnprocessableEntity_def)
  have res: "AcceptDeviceAuth ?E ''a1'' ex_world =
               (fst (AcceptDeviceAuth ?E ''a1'' ex_world), snd (AcceptDeviceAuth ?E ''a1'' ex_world))"
    by simp
  have w: "snd (AcceptDeviceAuth ?E ''a1'' ex_world) =
             ex_world\<lparr>remote_calls :=
               [CallUpdateDevice \<lparr>sr_DeviceId = ''d1'', sr_AuthId = ''a1'', sr_Status = ''accepted''\<rparr>]\<rparr>"
    using found remote
    by (simp add: AcceptDeviceAuth_def updateDeviceAuthStatus_def propagateDeviceAuthUpdate_def
          Let_def ex_world_def ex_record_def DevStatusAccepted_def)
  have e: "fst (AcceptDeviceAuth ?E ''a1'' ex_world) =
             Some (Wrapped ?e ''failed to propagate device status update'')"
    using remote_failure_leaves_status_uncommitted [OF which found remote] by simp
  show ?thesis
    using found w e by (simp add: prod_eq_iff)
qed

section \<open>Guards that return before any side effect\<close>

lemma filter_nonempty: "d \<in> set c \<Longrightarrow> p d \<Longrightarrow> filter p c \<noteq> []"
  by (auto simp: filter_empty_conv)

lemma bson_match_identity:
  "bson_match (DeviceAuth_zero\<lparr>DeviceIdentity := x\<rparr>) d = (x = [] \<or> DeviceIdentity d = x)"
  by (simp add: bson_match_def DeviceAuth_zero_def)

lemma GetDeviceAuth_Inr:
  "GetDeviceAuth E i w = Inr dev \<Longrightarrow>
     Find_fault E = None \<and> find (id_is i) (coll w) = Some dev \<and> ID dev = i"
  by (auto simp: GetDeviceAuth_def mgo_One_def id_is_def
           split: option.splits if_splits dest: find_Some_holds)

text \<open>
  Claim C2, as amended. Let a record with the device identity of the request be stored
  before \<^verbatim>\<open>PreauthorizeDevice\<close> is called, whatever its status. When the identity
  lookup succeeds the call returns \<^verbatim>\<open>AuthSetConflictError\<close>; when the lookup itself
  fails, the call returns the lookup's error wrapped with "failed to fetch device"
  instead. In both cases the state is unchanged: no record is inserted, no store write
  and no remote pre-authorize call is made. The counterexample is a stored duplicate
  with a failing lookup: the call does not return the conflict error.
\<close>

theorem preauthorize_duplicate_identity:
  assumes stored: "d \<in> set (coll w)"
      and same: "DeviceIdentity d = as_DeviceId a"
  shows "PreauthorizeDevice E a h w =
           (case Find_fault E of
              None \<Rightarrow> (Some AuthSetConflictError, w)
            | Some e \<Rightarrow> (Some (Wrapped e ''failed to fetch device''), w))"
proof (cases "Find_fault E")
  case None
  have "filter (bson_match (DeviceAuth_zero\<lparr>DeviceIdentity := as_DeviceId a\<rparr>)) (coll w) \<noteq> []"
    using stored same by (intro filter_nonempty [of d]) (simp_all add: bson_match_identity)
  then show ?thesis
    using None
    by (simp add: PreauthorizeDevice_def GetDeviceAuthsByIdentityData_def mgo_All_def
          errors_Wrap_def Let_def)
next
  case (Some e)
  then show ?thesis
    by (simp add: PreauthorizeDevice_def GetDeviceAuthsByIdentityData_def mgo_All_def
          errors_Wrap_def Let_def)
qed

theorem preauthorize_duplicate_identity_witness:
  "ex_record \<in> set (coll ex_world) \<and> DeviceIdentity ex_record = ''X'' \<and>
   PreauthorizeDevice ex_env \<lparr>as_DeviceId = ''X'', as_Key = ''k2'', as_Attributes = []\<rparr>
     ''Bearer t'' ex_world = (Some AuthSetConflictError, ex_world)"
proof -
  have s: "ex_record \<in> set (coll ex_world)"
    by (simp add: ex_world_def)
  have i: "DeviceIdentity ex_record = as_DeviceId \<lparr>as_DeviceId = ''X'', as_Key = ''k2'', as_Attributes = []\<rparr>"
    by (simp add: ex_record_def)
  have f: "Find_fault ex_env = None"
    by (simp add: ex_env_def)
  show ?thesis
    using preauthorize_duplicate_identity [OF s i, of ex_env "''Bearer t''"] s i f by simp
qed

theorem preauthorize_duplicate_identity_counterexample:
  "ex_record \<in> set (coll ex_world) \<and> DeviceIdentity ex_record = ''X'' \<and>
   PreauthorizeDevice (ex_env\<lparr>Find_fault := Some (errors_New ''i/o timeout'')\<rparr>)
     \<lparr>as_DeviceId = ''X'', as_Key = ''k2'', as_Attributes = []\<rparr> ''Bearer t'' ex_world =
     (Some (Wrapped (errors_New ''i/o timeout'') ''failed to fetch device''), ex_world) \<and>
   fst (PreauthorizeDevice (ex_env\<lparr>Find_fault := Some (errors_New ''i/o timeout'')\<rparr>)
     \<lparr>as_DeviceId = ''X'', as_Key = ''k2'', as_Attributes = []\<rparr> ''Bearer t'' ex_world) \<noteq>
     Some AuthSetConflictError"
  by (simp add: PreauthorizeDevice_def GetDeviceAuthsByIdentityData_def mgo_All_def
        errors_Wrap_def Let_def ex_world_def ex_record_def)

text \<open>
  Claim C3, as amended. When the store read succeeds and the record's stored status is
  not \<^verbatim>\<open>preauthorized\<close>, \<^verbatim>\<open>AcceptDevicePreAuth\<close> returns \<^verbatim>\<open>ErrNotPreauthorized\<close>; when
  it succeeds and there is no record with the id, it returns \<^verbatim>\<open>ErrAuthNotFound\<close>; when
  the read fails for another reason, it returns that error wrapped. In the three cases
  the state is unchanged: no store write, no remote call. The counterexample is a
  pending record with a failing read: the call does not return
  \<^verbatim>\<open>ErrNotPreauthorized\<close>.
\<close>

theorem accept_preauth_guards:
  "(Find_fault E = None \<and> find (id_is i) (coll w) = Some dev \<and>
      Status dev \<noteq> DevStatusPreauthorized \<longrightarrow>
        AcceptDevicePreAuth E i w = (Some ErrNotPreauthorized, w)) \<and>
   (Find_fault E = None \<and> find (id_is i) (coll w) = None \<longrightarrow>
        AcceptDevicePreAuth E i w = (Some ErrAuthNotFound, w)) \<and>
   (Find_fault E = Some e \<and> e \<noteq> mgo_ErrNotFound \<longrightarrow>
        AcceptDevicePreAuth E i w =
          (Some (Wrapped (Wrapped e ''failed to fetch device'') ''failed to fetch auth set''), w))"
  by (simp add: AcceptDevicePreAuth_def GetDeviceAuth_def mgo_One_def)

theorem accept_preauth_guards_witness:
  "AcceptDevicePreAuth ex_env ''a1'' ex_world = (Some ErrNotPreauthorized, ex_world) \<and>
   AcceptDevicePreAuth ex_env ''zz'' ex_world = (Some ErrAuthNotFound, ex_world)"
proof -
  have f: "Find_fault ex_env = None"
    by (simp add: ex_env_def)
  have a: "find (id_is ''a1'') (coll ex_world) = Some ex_record"
    by (simp add: ex_world_def ex_record_def id_is_def)
  have s: "Status ex_record \<noteq> DevStatusPreauthorized"
    by (simp add: ex_record_def DevStatusPreauthorized_def)
  have z: "find (id_is ''zz'') (coll ex_world) = None"
    by (simp add: ex_world_def ex_record_def id_is_def)
  show ?thesis
    using accept_preauth_guards [of ex_env "''a1''" ex_world ex_record "errors_New []"]
          accept_preauth_guards [of ex_env "''zz''" ex_world ex_record "errors_New []"]
          f a s z
    by simp
qed

theorem accept_preauth_guards_counterexample:
  "find (id_is ''a1'') (coll ex_world) = Some ex_record \<and>
   Status ex_record \<noteq> DevStatusPreauthorized \<and>
   AcceptDevicePreAuth (ex_env\<lparr>Find_fault := Some (errors_New ''i/o timeout'')\<rparr>) ''a1'' ex_world =
     (Some (Wrapped (Wrapped (errors_New ''i/o timeout'') ''failed to fetch device'')
              ''failed to fetch auth set''), ex_world) \<and>
   fst (AcceptDevicePreAuth (ex_env\<lparr>Find_fault := Some (errors_New ''i/o timeout'')\<rparr>) ''a1'' ex_world)
     \<noteq> Some ErrNotPreauthorized"
  by (simp add: AcceptDevicePreAuth_def GetDeviceAuth_def mgo_One_def ex_world_def
        ex_record_def id_is_def DevStatusPreauthorized_def)

section \<open>Pre-authorization\<close>

lemma InsertDeviceAuth_ok:
  assumes "InsertDeviceAuth E d0 w = (None, dev, w1)"
  shows "dev = d0\<lparr>ID := fst (NewObjectId E), DeviceId := snd (NewObjectId E)\<rparr> \<and>
         coll w1 = coll w @ [dev] \<and> remote_calls w1 = remote_calls w"
  using assms
  by (auto simp: InsertDeviceAuth_def mgo_Insert_def Let_def split: option.splits)

lemma InsertDeviceAuth_coll:
  "coll (snd (snd (InsertDeviceAuth E d0 w))) = coll w \<or>
   (fst (InsertDeviceAuth E d0 w) = None \<and>
    coll (snd (snd (InsertDeviceAuth E d0 w))) =
      coll w @ [d0\<lparr>ID := fst (NewObjectId E), DeviceId := snd (NewObjectId E)\<rparr>])"
  by (auto simp: InsertDeviceAuth_def mgo_Insert_def Let_def split: option.splits)

lemma propagatePreauthorizeDevice_coll [simp]:
  "coll (snd (propagatePreauthorizeDevice E dev h w)) = coll w"
  by (simp add: propagatePreauthorizeDevice_def Let_def)

text \<open>
  Claim C6. Let the duplicate check of \<^verbatim>\<open>PreauthorizeDevice\<close> pass (the lookup
  succeeds and finds nothing), let the insert succeed, storing \<open>dev\<close>, and let the
  remote pre-authorize call for \<open>dev\<close> fail with \<open>e\<close>. Then the call returns \<open>e\<close>
  wrapped with "failed to propagate device status update", and \<open>dev\<close>, the
  preauthorized record of the request's identity, is the last document of the
  collection: the only store write was the insert, and nothing removes the record.
\<close>

theorem preauthorize_remote_failure_keeps_record:
  assumes check: "GetDeviceAuthsByIdentityData E (as_DeviceId a) w = ([], None)"
      and inserted:
        "InsertDeviceAuth E
           (DeviceAuth_zero\<lparr>DeviceIdentity := as_DeviceId a, Status := DevStatusPreauthorized,
              Attributes := as_Attributes a, Key := as_Key a,
              RequestTime := Some (clock_Now E)\<rparr>) w = (None, dev, w1)"
      and remote:
        "Client_PreauthorizeDevice E (NewClient (authclientconf E))
           \<lparr>pa_DeviceId = DeviceId dev, pa_AuthSetId = ID dev,
            pa_IdData = DeviceIdentity dev, pa_PubKey = Key dev\<rparr> h = Some e"
  shows "fst (PreauthorizeDevice E a h w) =
           Some (Wrapped e ''failed to propagate device status update'') \<and>
         coll (snd (PreauthorizeDevice E a h w)) = coll w @ [dev] \<and>
         DeviceIdentity dev = as_DeviceId a \<and> Status dev = DevStatusPreauthorized \<and>
         store_writes (snd (PreauthorizeDevice E a h w)) =
           store_writes w @ [CallInsertDeviceAuth dev]"
proof -
  have run: "PreauthorizeDevice E a h w = propagatePreauthorizeDevice E dev h w1"
    using check inserted by (simp add: PreauthorizeDevice_def Let_def)
  have w1: "coll w1 = coll w @ [dev]"
    using InsertDeviceAuth_ok [OF inserted] by simp
  have sw: "store_writes w1 = store_writes w @ [CallInsertDeviceAuth dev]"
    using inserted
    by (auto simp: InsertDeviceAuth_def mgo_Insert_def Let_def split: option.splits)
  have dev: "DeviceIdentity dev = as_DeviceId a \<and> Status dev = DevStatusPreauthorized"
    using InsertDeviceAuth_ok [OF inserted] by simp
  show ?thesis
    unfolding run using remote w1 dev sw
    by (simp add: propagatePreauthorizeDevice_def errors_Wrap_def Let_def)
qed

theorem preauthorize_remote_failure_keeps_record_witness:
  "coll (snd (PreauthorizeDevice
     (ex_env\<lparr>client_Do := (\<lambda>req. Inl (errors_New ''connection refused''))\<rparr>)
     \<lparr>as_DeviceId = ''Y'', as_Key = ''k2'', as_Attributes = []\<rparr> ''Bearer t'' ex_world)) =
     [ex_record,
      \<lparr>ID = ''a2'', DeviceId = ''d2'', DeviceIdentity = ''Y'', Key = ''k2'',
       Status = ''preauthorized'', Attributes = [], RequestTime = Some 9\<rparr>] \<and>
   fst (PreauthorizeDevice
     (ex_env\<lparr>client_Do := (\<lambda>req. Inl (errors_New ''connection refused''))\<rparr>)
     \<lparr>as_DeviceId = ''Y'', as_Key = ''k2'', as_Attributes = []\<rparr> ''Bearer t'' ex_world) =
     Some (Wrapped (Wrapped (errors_New ''connection refused'') ''failed to preauthorize device'')
             ''failed to propagate device status update'')"
proof -
  let ?E = "ex_env\<lparr>client_Do := (\<lambda>req. Inl (errors_New ''connection refused''))\<rparr>"
  let ?a = "\<lparr>as_DeviceId = ''Y'', as_Key = ''k2'', as_Attributes = []\<rparr>"
  let ?dev = "\<lparr>ID = ''a2'', DeviceId = ''d2'', DeviceIdentity = ''Y'', Key = ''k2'',
       Status = ''preauthorized'', Attributes = [], RequestTime = Some 9\<rparr>"
  let ?w1 = "ex_world\<lparr>store_writes := [CallInsertDeviceAuth ?dev], coll := [ex_record, ?dev]\<rparr>"
  have check: "GetDeviceAuthsByIdentityData ?E (as_DeviceId ?a) ex_world = ([], None)"
    by (simp add: GetDeviceAuthsByIdentityData_def mgo_All_def errors_Wrap_def Let_def
          ex_env_def ex_world_def ex_record_def bson_match_def DeviceAuth_zero_def)
  have inserted:
    "InsertDeviceAuth ?E
       (DeviceAuth_zero\<lparr>DeviceIdentity := as_DeviceId ?a, Status := DevStatusPreauthorized,
          Attributes := as_Attributes ?a, Key := as_Key ?a,
          RequestTime := Some (clock_Now ?E)\<rparr>) ex_world = (None, ?dev, ?w1)"
    by (simp add: InsertDeviceAuth_def mgo_Insert_def Let_def ex_env_def ex_world_def
          ex_record_def DeviceAuth_zero_def DevStatusPreauthorized_def id_is_def)
  have remote:
    "Client_PreauthorizeDevice ?E (NewClient (authclientconf ?E))
       \<lparr>pa_DeviceId = DeviceId ?dev, pa_AuthSetId = ID ?dev,
        pa_IdData = DeviceIdentity ?dev, pa_PubKey = Key ?dev\<rparr> ''Bearer t'' =
     Some (Wrapped (errors_New ''connection refused'') ''failed to preauthorize device'')"
    by (simp add: Client_PreauthorizeDevice_def Let_def ex_env_def)
  show ?thesis
    using preauthorize_remote_failure_keeps_record [OF check inserted remote]
    by (simp add: ex_world_def)
qed

text \<open>
  Claim C9, as amended. The record \<^verbatim>\<open>PreauthorizeDevice\<close> creates carries the device
  identifier of the request as its \<^verbatim>\<open>DeviceIdentity\<close>; its \<^verbatim>\<open>ID\<close> and its
  \<^verbatim>\<open>DeviceId\<close> are the two object ids the store generates in \<^verbatim>\<open>InsertDeviceAuth\<close>.
  A call leaves the collection as it was or appends exactly that record, and a call
  that succeeds appends it. The counterexample is a successful call whose created
  record has a \<^verbatim>\<open>DeviceId\<close> other than the identifier the caller gave.
\<close>

theorem preauthorize_assigns_fresh_ids:
  "(coll (snd (PreauthorizeDevice E a h w)) = coll w \<or>
    coll (snd (PreauthorizeDevice E a h w)) =
      coll w @ [\<lparr>ID = fst (NewObjectId E), DeviceId = snd (NewObjectId E),
                 DeviceIdentity = as_DeviceId a, Key = as_Key a,
                 Status = DevStatusPreauthorized, Attributes = as_Attributes a,
                 RequestTime = Some (clock_Now E)\<rparr>]) \<and>
   (fst (PreauthorizeDevice E a h w) = None \<longrightarrow>
    coll (snd (PreauthorizeDevice E a h w)) =
      coll w @ [\<lparr>ID = fst (NewObjectId E), DeviceId = snd (NewObjectId E),
                 DeviceIdentity = as_DeviceId a, Key = as_Key a,
                 Status = DevStatusPreauthorized, Attributes = as_Attributes a,
                 RequestTime = Some (clock_Now E)\<rparr>])"
proof -
  let ?d0 = "DeviceAuth_zero\<lparr>DeviceIdentity := as_DeviceId a, Status := DevStatusPreauthorized,
              Attributes := as_Attributes a, Key := as_Key a,
              RequestTime := Some (clock_Now E)\<rparr>"
  let ?new = "\<lparr>ID = fst (NewObjectId E), DeviceId = snd (NewObjectId E),
                 DeviceIdentity = as_DeviceId a, Key = as_Key a,
                 Status = DevStatusPreauthorized, Attributes = as_Attributes a,
                 RequestTime = Some (clock_Now E)\<rparr>"
  have new: "?d0\<lparr>ID := fst (NewObjectId E), DeviceId := snd (NewObjectId E)\<rparr> = ?new"
    by (simp add: DeviceAuth_zero_def)
  obtain devs fe where look: "GetDeviceAuthsByIdentityData E (as_DeviceId a) w = (devs, fe)"
    by (cases "GetDeviceAuthsByIdentityData E (as_DeviceId a) w")
  obtain ie dev w1 where ins: "InsertDeviceAuth E ?d0 w = (ie, dev, w1)"
    by (cases "InsertDeviceAuth E ?d0 w") auto
  have ins_coll: "coll w1 = coll w \<or> (ie = None \<and> coll w1 = coll w @ [?new])"
    using InsertDeviceAuth_coll [of E ?d0 w] ins new by simp
  show ?thesis
  proof (cases "fe = None \<and> devs = []")
    case False
    then have "snd (PreauthorizeDevice E a h w) = w \<and> fst (PreauthorizeDevice E a h w) \<noteq> None"
      using look by (cases fe) (auto simp: PreauthorizeDevice_def)
    then show ?thesis by simp
  next
    case True
    show ?thesis
    proof (cases ie)
      case None
      then have "PreauthorizeDevice E a h w = propagatePreauthorizeDevice E dev h w1"
        using look ins True by (simp add: PreauthorizeDevice_def Let_def)
      moreover have "coll w1 = coll w @ [?new]"
        using InsertDeviceAuth_ok [of E ?d0 w dev w1] ins None new by simp
      ultimately show ?thesis
        by simp
    next
      case (Some x)
      then have "PreauthorizeDevice E a h w = (Some x, w1)"
        using look ins True by (simp add: PreauthorizeDevice_def Let_def)
      then show ?thesis
        using ins_coll Some by auto
    qed
  qed
qed

theorem preauthorize_assigns_fresh_ids_witness:
  "fst (PreauthorizeDevice ex_env \<lparr>as_DeviceId = ''Y'', as_Key = ''k2'', as_Attributes = []\<rparr>
          ''Bearer t'' ex_world) = None \<and>
   coll (snd (PreauthorizeDevice ex_env \<lparr>as_DeviceId = ''Y'', as_Key = ''k2'', as_Attributes = []\<rparr>
          ''Bearer t'' ex_world)) =
     [ex_record,
      \<lparr>ID = ''a2'', DeviceId = ''d2'', DeviceIdentity = ''Y'', Key = ''k2'',
       Status = ''preauthorized'', Attributes = [], RequestTime = Some 9\<rparr>]"
proof -
  let ?a = "\<lparr>as_DeviceId = ''Y'', as_Key = ''k2'', as_Attributes = []\<rparr>"
  have ok: "fst (PreauthorizeDevice ex_env ?a ''Bearer t'' ex_world) = None"
    by (simp add: PreauthorizeDevice_def GetDeviceAuthsByIdentityData_def mgo_All_def
          errors_Wrap_def Let_def InsertDeviceAuth_def mgo_Insert_def
          propagatePreauthorizeDevice_def Client_PreauthorizeDevice_def StatusCreated_def
          ex_env_def ex_world_def ex_record_def bson_match_def DeviceAuth_zero_def id_is_def)
  show ?thesis
    using preauthorize_assigns_fresh_ids [of ex_env ?a "''Bearer t''" ex_world] ok
    by (simp add: ex_env_def ex_world_def DevStatusPreauthorized_def)
qed

theorem preauthorize_assigns_fresh_ids_counterexample:
  "fst (PreauthorizeDevice ex_env \<lparr>as_DeviceId = ''Y'', as_Key = ''k2'', as_Attributes = []\<rparr>
          ''Bearer t'' ex_world) = None \<and>
   coll (snd (PreauthorizeDevice ex_env \<lparr>as_DeviceId = ''Y'', as_Key = ''k2'', as_Attributes = []\<rparr>
          ''Bearer t'' ex_world)) =
     [ex_record,
      \<lparr>ID = ''a2'', DeviceId = ''d2'', DeviceIdentity = ''Y'', Key = ''k2'',
       Status = ''preauthorized'', Attributes = [], RequestTime = Some 9\<rparr>] \<and>
   DeviceId (last (coll (snd (PreauthorizeDevice ex_env
      \<lparr>as_DeviceId = ''Y'', as_Key = ''k2'', as_Attributes = []\<rparr> ''Bearer t'' ex_world)))) \<noteq>
     as_DeviceId \<lparr>as_DeviceId = ''Y'', as_Key = ''k2'', as_Attributes = []\<rparr>"
  by (simp add: PreauthorizeDevice_def GetDeviceAuthsByIdentityData_def mgo_All_def
        errors_Wrap_def Let_def InsertDeviceAuth_def mgo_Insert_def
        propagatePreauthorizeDevice_def Client_PreauthorizeDevice_def StatusCreated_def
        ex_env_def ex_world_def ex_record_def bson_match_def DeviceAuth_zero_def id_is_def
        DevStatusPreauthorized_def)

section \<open>Successful transitions\<close>

lemma PutDeviceAuth_remote_calls [simp]:
  "remote_calls (snd (PutDeviceAuth E u w)) = remote_calls w"
  by (auto simp: PutDeviceAuth_def mgo_Upsert_def Let_def split: option.splits)

lemma UpdateDeviceAuth_remote_calls [simp]:
  "remote_calls (snd (UpdateDeviceAuth E u w)) = remote_calls w"
  by (auto simp: UpdateDeviceAuth_def mgo_Update_def Let_def split: option.splits)

lemma bson_set_id_device_status:
  "s \<noteq> [] \<Longrightarrow>
   bson_set (genDeviceAuthUpdate (DeviceAuth_zero\<lparr>ID := a, DeviceId := DeviceId r, Status := s\<rparr>)) r =
     r\<lparr>Status := s\<rparr>"
  by (cases r) (simp add: genDeviceAuthUpdate_eq bson_set_def DeviceAuth_zero_def)

lemma updateDeviceAuthStatus_ok:
  assumes s: "status \<noteq> []"
      and ok: "updateDeviceAuthStatus E i status w = (None, w')"
  shows "\<exists>dev. find (id_is i) (coll w) = Some dev \<and>
           find (id_is i) (coll w') = Some (dev\<lparr>Status := status\<rparr>) \<and>
           remote_calls w' = remote_calls w @
             [CallUpdateDevice \<lparr>sr_DeviceId = DeviceId dev, sr_AuthId = ID dev, sr_Status = status\<rparr>]"
proof (cases "GetDeviceAuth E i w")
  case (Inl e)
  then show ?thesis
    using ok by (simp add: updateDeviceAuthStatus_def)
next
  case (Inr dev)
  let ?sreq = "\<lparr>sr_DeviceId = DeviceId dev, sr_AuthId = ID dev, sr_Status = status\<rparr>"
  let ?w1 = "w\<lparr>remote_calls := remote_calls w @ [CallUpdateDevice ?sreq]\<rparr>"
  let ?u = "DeviceAuth_zero\<lparr>ID := ID dev, DeviceId := DeviceId dev, Status := status\<rparr>"
  have found: "find (id_is i) (coll w) = Some dev" and id: "ID dev = i"
    using GetDeviceAuth_Inr [OF Inr] by simp_all
  have put: "PutDeviceAuth E ?u ?w1 = (None, w')"
    using ok Inr
    by (auto simp: updateDeviceAuthStatus_def propagateDeviceAuthUpdate_def Let_def
             split: option.splits if_splits prod.splits)
  have stored: "find (id_is (ID ?u)) (coll ?w1) = Some dev"
    using found id by simp
  have "find (id_is (ID ?u)) (coll w') = Some (dev\<lparr>Status := status\<rparr>)"
    using PutDeviceAuth_stored [OF stored, of E] put s
    by (simp add: bson_set_id_device_status)
  moreover have "remote_calls w' = remote_calls ?w1"
    using PutDeviceAuth_remote_calls [of E ?u ?w1] put by simp
  ultimately show ?thesis
    using found id by simp
qed

lemma AcceptDevicePreAuth_ok:
  assumes ok: "AcceptDevicePreAuth E i w = (None, w')"
  shows "\<exists>dev. find (id_is i) (coll w) = Some dev \<and> Status dev = DevStatusPreauthorized \<and>
           find (id_is i) (coll w') = Some (dev\<lparr>Status := DevStatusAccepted\<rparr>) \<and>
           remote_calls w' = remote_calls w"
proof (cases "GetDeviceAuth E i w")
  case (Inl e)
  then show ?thesis
    using ok by (simp add: AcceptDevicePreAuth_def split: if_splits)
next
  case (Inr dev)
  let ?u = "DeviceAuth_zero\<lparr>ID := ID dev, Status := DevStatusAccepted\<rparr>"
  have found: "find (id_is i) (coll w) = Some dev" and id: "ID dev = i"
    using GetDeviceAuth_Inr [OF Inr] by simp_all
  have pre: "Status dev = DevStatusPreauthorized"
    using ok Inr by (auto simp: AcceptDevicePreAuth_def split: if_splits)
  have upd: "UpdateDeviceAuth E ?u w = (None, w')"
    using ok Inr pre
    by (auto simp: AcceptDevicePreAuth_def split: option.splits prod.splits)
  have stored: "find (id_is (ID ?u)) (coll w) = Some dev"
    using found id by simp
  have "find (id_is (ID ?u)) (coll w') = Some (dev\<lparr>Status := DevStatusAccepted\<rparr>)"
    using UpdateDeviceAuth_stored [OF stored, of E] upd
    by (simp add: bson_set_status_only DevStatusAccepted_def)
  moreover have "remote_calls w' = remote_calls w"
    using UpdateDeviceAuth_remote_calls [of E ?u w] upd by simp
  ultimately show ?thesis
    using found id pre by simp
qed

text \<open>
  Claim C4, as amended. When \<^verbatim>\<open>AcceptDeviceAuth\<close> (target \<^verbatim>\<open>accepted\<close>) or
  \<^verbatim>\<open>RejectDeviceAuth\<close> (target \<^verbatim>\<open>rejected\<close>) succeeds on the id \<open>i\<close>, a record
  \<open>dev\<close> was stored under \<open>i\<close>, the record stored under \<open>i\<close> afterwards is \<open>dev\<close>
  with the target status, and exactly one call was added to the calls made on the
  remote authenticator: \<^verbatim>\<open>UpdateDevice\<close> with the device id and the auth id of
  \<open>dev\<close> and the target status. This holds from any stored status, so in particular
  from \<^verbatim>\<open>pending\<close> and from \<^verbatim>\<open>preauthorized\<close>. When \<^verbatim>\<open>AcceptDevicePreAuth\<close>
  succeeds, the record was \<^verbatim>\<open>preauthorized\<close>, afterwards it is stored with the status
  \<^verbatim>\<open>accepted\<close>, and no call was made on the remote authenticator. The
  counterexample is a successful \<^verbatim>\<open>AcceptDevicePreAuth\<close> after which the list of
  remote calls is empty.
\<close>

theorem transitions_store_status_and_propagate:
  "((op, status) \<in> {(AcceptDeviceAuth, DevStatusAccepted),
                     (RejectDeviceAuth, DevStatusRejected)} \<and>
    op E i w = (None, w') \<longrightarrow>
      (\<exists>dev. find (id_is i) (coll w) = Some dev \<and>
         find (id_is i) (coll w') = Some (dev\<lparr>Status := status\<rparr>) \<and>
         remote_calls w' = remote_calls w @
           [CallUpdateDevice
              \<lparr>sr_DeviceId = DeviceId dev, sr_AuthId = ID dev, sr_Status = status\<rparr>])) \<and>
   (AcceptDevicePreAuth E i w = (None, w') \<longrightarrow>
      (\<exists>dev. find (id_is i) (coll w) = Some dev \<and> Status dev = DevStatusPreauthorized \<and>
         find (id_is i) (coll w') = Some (dev\<lparr>Status := DevStatusAccepted\<rparr>) \<and>
         remote_calls w' = remote_calls w))"
proof (intro conjI impI)
  assume a: "(op, status) \<in> {(AcceptDeviceAuth, DevStatusAccepted),
                              (RejectDeviceAuth, DevStatusRejected)} \<and>
             op E i w = (None, w')"
  then have "updateDeviceAuthStatus E i status w = (None, w') \<and> status \<noteq> []"
    by (auto simp: AcceptDeviceAuth_def RejectDeviceAuth_def DevStatusAccepted_def
          DevStatusRejected_def)
  then show "\<exists>dev. find (id_is i) (coll w) = Some dev \<and>
         find (id_is i) (coll w') = Some (dev\<lparr>Status := status\<rparr>) \<and>
         remote_calls w' = remote_calls w @
           [CallUpdateDevice
              \<lparr>sr_DeviceId = DeviceId dev, sr_AuthId = ID dev, sr_Status = status\<rparr>]"
    using updateDeviceAuthStatus_ok by blast
next
  assume "AcceptDevicePreAuth E i w = (None, w')"
  then show "\<exists>dev. find (id_is i) (coll w) = Some dev \<and> Status dev = DevStatusPreauthorized \<and>
         find (id_is i) (coll w') = Some (dev\<lparr>Status := DevStatusAccepted\<rparr>) \<and>
         remote_calls w' = remote_calls w"
    by (rule AcceptDevicePreAuth_ok)
qed

theorem transitions_store_status_and_propagate_witness:
  "fst (AcceptDeviceAuth ex_env ''a1'' ex_world) = None \<and>
   find (id_is ''a1'') (coll (snd (AcceptDeviceAuth ex_env ''a1'' ex_world))) =
     Some (ex_record\<lparr>Status := ''accepted''\<rparr>) \<and>
   remote_calls (snd (AcceptDeviceAuth ex_env ''a1'' ex_world)) =
     [CallUpdateDevice \<lparr>sr_DeviceId = ''d1'', sr_AuthId = ''a1'', sr_Status = ''accepted''\<rparr>]"
proof -
  let ?w' = "snd (AcceptDeviceAuth ex_env ''a1'' ex_world)"
  have ok: "fst (AcceptDeviceAuth ex_env ''a1'' ex_world) = None"
    by (simp add: AcceptDeviceAuth_def updateDeviceAuthStatus_def GetDeviceAuth_def mgo_One_def
          propagateDeviceAuthUpdate_def Client_UpdateDevice_def UpdateDevice_response_def
          StatusNoContent_def PutDeviceAuth_def mgo_Upsert_def Let_def id_is_def
          ex_env_def ex_world_def ex_record_def)
  have run: "(AcceptDeviceAuth, DevStatusAccepted) \<in>
               {(AcceptDeviceAuth, DevStatusAccepted), (RejectDeviceAuth, DevStatusRejected)} \<and>
             AcceptDeviceAuth ex_env ''a1'' ex_world = (None, ?w')"
    using ok by (simp add: prod_eq_iff)
  have found: "find (id_is ''a1'') (coll ex_world) = Some ex_record"
    by (simp add: ex_world_def ex_record_def id_is_def)
  have rc: "remote_calls ex_world = []"
    by (simp add: ex_world_def)
  have "\<exists>dev. find (id_is ''a1'') (coll ex_world) = Some dev \<and>
          find (id_is ''a1'') (coll ?w') = Some (dev\<lparr>Status := DevStatusAccepted\<rparr>) \<and>
          remote_calls ?w' = remote_calls ex_world @
            [CallUpdateDevice
               \<lparr>sr_DeviceId = DeviceId dev, sr_AuthId = ID dev, sr_Status = DevStatusAccepted\<rparr>]"
    using transitions_store_status_and_propagate
            [of AcceptDeviceAuth DevStatusAccepted ex_env "''a1''" ex_world ?w'] run
    by blast
  then have "find (id_is ''a1'') (coll ?w') = Some (ex_record\<lparr>Status := DevStatusAccepted\<rparr>) \<and>
          remote_calls ?w' =
            [CallUpdateDevice
               \<lparr>sr_DeviceId = DeviceId ex_record, sr_AuthId = ID ex_record,
                sr_Status = DevStatusAccepted\<rparr>]"
    using found rc by auto
  then show ?thesis
    using ok by (simp add: DevStatusAccepted_def ex_record_def)
qed

theorem transitions_store_status_and_propagate_counterexample:
  "find (id_is ''a1'') (coll (ex_world\<lparr>coll := [ex_record\<lparr>Status := ''preauthorized''\<rparr>]\<rparr>)) =
     Some (ex_record\<lparr>Status := ''preauthorized''\<rparr>) \<and>
   fst (AcceptDevicePreAuth ex_env ''a1''
          (ex_world\<lparr>coll := [ex_record\<lparr>Status := ''preauthorized''\<rparr>]\<rparr>)) = None \<and>
   find (id_is ''a1'')
     (coll (snd (AcceptDevicePreAuth ex_env ''a1''
          (ex_world\<lparr>coll := [ex_record\<lparr>Status := ''preauthorized''\<rparr>]\<rparr>)))) =
     Some (ex_record\<lparr>Status := ''accepted''\<rparr>) \<and>
   remote_calls (snd (AcceptDevicePreAuth ex_env ''a1''
          (ex_world\<lparr>coll := [ex_record\<lparr>Status := ''preauthorized''\<rparr>]\<rparr>))) = []"
  by (simp add: AcceptDevicePreAuth_def GetDeviceAuth_def mgo_One_def UpdateDeviceAuth_def
        mgo_Update_def genDeviceAuthUpdate_eq bson_set_def Let_def id_is_def
        DevStatusPreauthorized_def DevStatusAccepted_def DeviceAuth_zero_def
        ex_env_def ex_world_def ex_record_def)

section \<open>The request time\<close>

lemma update_first_keeps_id_time:
  "RequestTime u = None \<Longrightarrow>
   map (\<lambda>d. (ID d, RequestTime d)) (update_first p (bson_set (genDeviceAuthUpdate u)) c) =
   map (\<lambda>d. (ID d, RequestTime d)) c"
  by (rule map_update_first) (simp add: bson_set_keeps_empty)

lemma PutDeviceAuth_keeps_id_time:
  "find (id_is (ID u)) (coll w) = Some r \<Longrightarrow> RequestTime u = None \<Longrightarrow>
   map (\<lambda>d. (ID d, RequestTime d)) (coll (snd (PutDeviceAuth E u w))) =
   map (\<lambda>d. (ID d, RequestTime d)) (coll w)"
  by (auto simp: PutDeviceAuth_def mgo_Upsert_def Let_def update_first_keeps_id_time
           split: option.splits)

lemma UpdateDeviceAuth_keeps_id_time:
  "RequestTime u = None \<Longrightarrow>
   map (\<lambda>d. (ID d, RequestTime d)) (coll (snd (UpdateDeviceAuth E u w))) =
   map (\<lambda>d. (ID d, RequestTime d)) (coll w)"
  by (auto simp: UpdateDeviceAuth_def mgo_Update_def Let_def update_first_keeps_id_time
           split: option.splits)

lemma propagateDeviceAuthUpdate_world:
  "snd (propagateDeviceAuthUpdate E dev w) =
     w\<lparr>remote_calls := remote_calls w @
          [CallUpdateDevice \<lparr>sr_DeviceId = DeviceId dev, sr_AuthId = ID dev, sr_Status = Status dev\<rparr>]\<rparr>"
  by (simp add: propagateDeviceAuthUpdate_def Let_def split: option.splits)

lemma updateDeviceAuthStatus_keeps_id_time:
  "map (\<lambda>d. (ID d, RequestTime d)) (coll (snd (updateDeviceAuthStatus E i status w))) =
   map (\<lambda>d. (ID d, RequestTime d)) (coll w)"
proof (cases "GetDeviceAuth E i w")
  case (Inl e)
  then show ?thesis
    by (simp add: updateDeviceAuthStatus_def)
next
  case (Inr dev)
  let ?dev = "dev\<lparr>Status := status\<rparr>"
  let ?w1 = "snd (propagateDeviceAuthUpdate E ?dev w)"
  let ?u = "DeviceAuth_zero\<lparr>ID := ID ?dev, DeviceId := DeviceId ?dev, Status := Status ?dev\<rparr>"
  have c1: "coll ?w1 = coll w"
    by (simp add: propagateDeviceAuthUpdate_world)
  have found: "find (id_is (ID ?u)) (coll ?w1) = Some dev"
    using GetDeviceAuth_Inr [OF Inr] c1 by simp
  have t: "RequestTime ?u = None"
    by (simp add: DeviceAuth_zero_def)
  have put: "map (\<lambda>d. (ID d, RequestTime d)) (coll (snd (PutDeviceAuth E ?u ?w1))) =
             map (\<lambda>d. (ID d, RequestTime d)) (coll w)"
    using PutDeviceAuth_keeps_id_time [OF found t, of E] c1 by simp
  show ?thesis
  proof (cases "fst (propagateDeviceAuthUpdate E ?dev w)")
    case None
    then have "snd (updateDeviceAuthStatus E i status w) = snd (PutDeviceAuth E ?u ?w1)"
      using Inr
      by (cases "propagateDeviceAuthUpdate E ?dev w")
         (auto simp: updateDeviceAuthStatus_def Let_def split: prod.splits option.splits)
    then show ?thesis
      using put by simp
  next
    case (Some e)
    then have "snd (updateDeviceAuthStatus E i status w) = ?w1"
      using Inr
      by (cases "propagateDeviceAuthUpdate E ?dev w")
         (auto simp: updateDeviceAuthStatus_def Let_def)
    then show ?thesis
      using c1 by simp
  qed
qed

lemma AcceptDevicePreAuth_keeps_id_time:
  "map (\<lambda>d. (ID d, RequestTime d)) (coll (snd (AcceptDevicePreAuth E i w))) =
   map (\<lambda>d. (ID d, RequestTime d)) (coll w)"
proof (cases "GetDeviceAuth E i w")
  case (Inl e)
  then show ?thesis
    by (simp add: AcceptDevicePreAuth_def)
next
  case (Inr dev)
  let ?u = "DeviceAuth_zero\<lparr>ID := ID dev, Status := DevStatusAccepted\<rparr>"
  have t: "RequestTime ?u = None"
    by (simp add: DeviceAuth_zero_def)
  show ?thesis
  proof (cases "Status dev = DevStatusPreauthorized")
    case False
    then show ?thesis
      using Inr by (simp add: AcceptDevicePreAuth_def)
  next
    case True
    have "snd (AcceptDevicePreAuth E i w) = snd (UpdateDeviceAuth E ?u w)"
      using Inr True
      by (cases "UpdateDeviceAuth E ?u w")
         (simp add: AcceptDevicePreAuth_def split: option.splits)
    then show ?thesis
      using UpdateDeviceAuth_keeps_id_time [OF t, of E w] by simp
  qed
qed

lemma SubmitDeviceAuth_stamps:
  assumes ok: "fst (SubmitDeviceAuth E dev w) = None"
  shows "\<exists>r. find (id_is (ID dev)) (coll (snd (SubmitDeviceAuth E dev w))) = Some r \<and>
           RequestTime r = Some (time_Now E)"
proof -
  let ?u = "dev\<lparr>RequestTime := Some (time_Now E)\<rparr>"
  let ?f = "bson_set (genDeviceAuthUpdate ?u)"
  have nofault: "EnsureIndex_fault E = None \<and> Upsert_fault E = None"
    using ok
    by (auto simp: SubmitDeviceAuth_def PutDeviceAuth_def mgo_Upsert_def Let_def
             split: option.splits prod.splits)
  have t: "RequestTime (?f d) = Some (time_Now E)" for d
    by (simp add: genDeviceAuthUpdate_eq bson_set_def)
  show ?thesis
  proof (cases "find (id_is (ID dev)) (coll w)")
    case None
    have c: "coll (snd (SubmitDeviceAuth E dev w)) = coll w @ [?f (DeviceAuth_zero\<lparr>ID := ID dev\<rparr>)]"
      using nofault None
      by (simp add: SubmitDeviceAuth_def PutDeviceAuth_def mgo_Upsert_def Let_def)
    have "id_is (ID dev) (?f (DeviceAuth_zero\<lparr>ID := ID dev\<rparr>))"
      by (simp add: id_is_def bson_set_keeps_empty(1))
    then show ?thesis
      using find_append_new [OF None] c t by simp
  next
    case (Some r)
    have c: "coll (snd (SubmitDeviceAuth E dev w)) = update_first (id_is (ID dev)) ?f (coll w)"
      using nofault Some
      by (simp add: SubmitDeviceAuth_def PutDeviceAuth_def mgo_Upsert_def Let_def)
    show ?thesis
      using find_id_update_first [OF Some, of ?u] c t by simp
  qed
qed

text \<open>
  Claim C8, as amended. \<^verbatim>\<open>AcceptDeviceAuth\<close>, \<^verbatim>\<open>RejectDeviceAuth\<close> and
  \<^verbatim>\<open>AcceptDevicePreAuth\<close> leave the id and the request time of every stored record
  as they were, whether they succeed or fail. \<^verbatim>\<open>SubmitDeviceAuth\<close> stamps the request
  time on every call: after a successful submission, the record stored under the
  submitted id has the time of that submission, also when a record with that id was
  stored before. The counterexample is a second submission of a stored record, which
  replaces its request time.
\<close>

theorem request_time_changed_only_by_submit:
  "(op \<in> {AcceptDeviceAuth, RejectDeviceAuth, AcceptDevicePreAuth} \<longrightarrow>
      map (\<lambda>d. (ID d, RequestTime d)) (coll (snd (op E i w))) =
      map (\<lambda>d. (ID d, RequestTime d)) (coll w)) \<and>
   (fst (SubmitDeviceAuth E dev w) = None \<longrightarrow>
      (\<exists>r. find (id_is (ID dev)) (coll (snd (SubmitDeviceAuth E dev w))) = Some r \<and>
           RequestTime r = Some (time_Now E)))"
proof (intro conjI impI)
  assume "op \<in> {AcceptDeviceAuth, RejectDeviceAuth, AcceptDevicePreAuth}"
  then consider "op = AcceptDeviceAuth" | "op = RejectDeviceAuth" | "op = AcceptDevicePreAuth"
    by auto
  then show "map (\<lambda>d. (ID d, RequestTime d)) (coll (snd (op E i w))) =
             map (\<lambda>d. (ID d, RequestTime d)) (coll w)"
  proof cases
    case 1
    then show ?thesis
      by (simp add: AcceptDeviceAuth_def updateDeviceAuthStatus_keeps_id_time)
  next
    case 2
    then show ?thesis
      by (simp add: RejectDeviceAuth_def updateDeviceAuthStatus_keeps_id_time)
  next
    case 3
    then show ?thesis
      by (simp add: AcceptDevicePreAuth_keeps_id_time)
  qed
next
  assume "fst (SubmitDeviceAuth E dev w) = None"
  then show "\<exists>r. find (id_is (ID dev)) (coll (snd (SubmitDeviceAuth E dev w))) = Some r \<and>
           RequestTime r = Some (time_Now E)"
    by (rule SubmitDeviceAuth_stamps)
qed

theorem request_time_changed_only_by_submit_witness:
  "map (\<lambda>d. (ID d, RequestTime d)) (coll (snd (AcceptDeviceAuth ex_env ''a1'' ex_world))) =
     [(''a1'', Some 1)] \<and>
   fst (SubmitDeviceAuth ex_env ex_record ex_world) = None \<and>
   map RequestTime (coll (snd (SubmitDeviceAuth ex_env ex_record ex_world))) = [Some 7]"
proof -
  have m: "AcceptDeviceAuth \<in> {AcceptDeviceAuth, RejectDeviceAuth, AcceptDevicePreAuth}"
    by simp
  have ok: "fst (SubmitDeviceAuth ex_env ex_record ex_world) = None"
    by (simp add: SubmitDeviceAuth_def PutDeviceAuth_def mgo_Upsert_def Let_def id_is_def
          ex_env_def ex_world_def ex_record_def)
  have c: "map RequestTime (coll (snd (SubmitDeviceAuth ex_env ex_record ex_world))) = [Some 7]"
    by (simp add: SubmitDeviceAuth_def PutDeviceAuth_def mgo_Upsert_def Let_def id_is_def
          genDeviceAuthUpdate_eq bson_set_def ex_env_def ex_world_def ex_record_def)
  show ?thesis
    using request_time_changed_only_by_submit
            [of AcceptDeviceAuth ex_env "''a1''" ex_world ex_record] m ok c
    by (simp add: ex_world_def ex_record_def)
qed

theorem request_time_changed_only_by_submit_counterexample:
  "find (id_is ''a1'') (coll ex_world) = Some ex_record \<and>
   RequestTime ex_record = Some 1 \<and>
   fst (SubmitDeviceAuth ex_env ex_record ex_world) = None \<and>
   find (id_is ''a1'') (coll (snd (SubmitDeviceAuth ex_env ex_record ex_world))) =
     Some (ex_record\<lparr>RequestTime := Some 7\<rparr>)"
  by (simp add: SubmitDeviceAuth_def PutDeviceAuth_def mgo_Upsert_def Let_def id_is_def
        genDeviceAuthUpdate_eq bson_set_def ex_env_def ex_world_def ex_record_def)

end
